theory Spec2Isabelle
  imports Main "HOL-Library.Word"
begin

unbundle bit_operations_syntax

section \<open>The BMP message decoder of openbmp: Server/src/parseBMP.cpp\<close>

text \<open>
  A shallow embedding of class \<open>parseBMP\<close>. The class reads a BMP stream from a socket
  and fills records owned by its caller. The socket is a finite run of pending bytes
  followed by what the stream yields once they are used up; the class members, the
  records passed by reference, the logger and the storage sink are explicit state.
  Integers have their C widths on an LP64 little-endian host: \<open>int\<close> is \<open>32 word\<close>,
  \<open>unsigned long\<close> and \<open>long long\<close> are \<open>64 word\<close>.
\<close>

subsection \<open>Bytes, integers in memory, faults\<close>

type_synonym u8 = "8 word"
type_synonym u16 = "16 word"
type_synonym u32 = "32 word"
type_synonym u64 = "64 word"

text \<open>
  Undefined behaviour of the C++ program is a value of the model: a read or a write
  beyond an array, a read through the null pointer. An exception (\<open>throw "..."\<close>, a
  failed \<open>new[]\<close>) is the other kind of fault.
\<close>

datatype ub =
    ReadBeyond nat nat      \<comment> \<open>bytes wanted, bytes the array holds\<close>
  | WriteBeyond nat nat     \<comment> \<open>bytes written, capacity of the destination\<close>
  | NullPointer

datatype fault = Throw string | BadArrayLength | Undefined ub

text \<open>
  Modelled from the spec: \<open>reverseBytes\<close>, declared outside parseBMP.cpp, which
  "reverses a byte run in place".
\<close>

definition reverseBytes :: "u8 list \<Rightarrow> u8 list" where
  "reverseBytes buf = rev buf"

text \<open>The big-endian value of a run of bytes, most significant first.\<close>

definition be_val :: "u8 list \<Rightarrow> 'a::len word" where
  "be_val bs = of_nat (foldl (\<lambda>acc b. 256 * acc + unat b) 0 bs)"

text \<open>
  An integer object of the little-endian host, read from and written to the bytes it
  occupies in memory (lowest address first).
\<close>

definition host_val :: "u8 list \<Rightarrow> 'a::len word" where
  "host_val mem = be_val (rev mem)"

fun host_bytes :: "nat \<Rightarrow> 'a::len word \<Rightarrow> u8 list" where
  "host_bytes 0 w = []"
| "host_bytes (Suc n) w = ucast w # host_bytes n (drop_bit 8 w)"

text \<open>
  \<open>memcpy(&x, src, n)\<close> on an integer object \<open>x\<close> of \<open>k\<close> bytes with \<open>n \<le> k\<close>: the
  first \<open>n\<close> bytes of the object are replaced, the others stay.
\<close>

definition memcpy_int :: "nat \<Rightarrow> 'a::len word \<Rightarrow> u8 list \<Rightarrow> 'a word" where
  "memcpy_int k x src = host_val (src @ drop (length src) (host_bytes k x))"

subsection \<open>The socket\<close>

datatype sock_end = Closed | IOError

record socket =
  pending :: "u8 list"
  at_end :: sock_end

text \<open>
  \<open>recv(sock, buf, n, MSG_WAITALL)\<close> and \<open>read(sock, buf, n)\<close>: the number returned, the
  bytes stored at the start of \<open>buf\<close>, the socket afterwards. With no byte left the call
  returns 0 after an orderly close and -1 after a failure, whatever \<open>n\<close> is; with
  fewer than \<open>n\<close> bytes left it returns those that are there.
\<close>

definition recv :: "socket \<Rightarrow> nat \<Rightarrow> int \<times> u8 list \<times> socket" where
  "recv s n =
     (if pending s = []
      then ((case at_end s of Closed \<Rightarrow> 0 | IOError \<Rightarrow> - 1), [], s)
      else if n \<le> length (pending s)
      then (int n, take n (pending s), s\<lparr>pending := drop n (pending s)\<rparr>)
      else (int (length (pending s)), pending s, s\<lparr>pending := []\<rparr>))"

text \<open>A buffer of \<open>n\<close> zero bytes whose start has been overwritten by \<open>got\<close>.\<close>

definition zero_filled :: "nat \<Rightarrow> u8 list \<Rightarrow> u8 list" where
  "zero_filled n got = got @ replicate (n - length got) 0"

definition field :: "nat \<Rightarrow> nat \<Rightarrow> u8 list \<Rightarrow> u8 list" where
  "field off n struct = take n (drop off struct)"

subsection \<open>printf conversions, strtoll\<close>

definition digit_char :: "nat \<Rightarrow> char" where
  "digit_char d = ''0123456789abcdef'' ! (d mod 16)"

fun dec :: "nat \<Rightarrow> string" where
  "dec n = (if n < 10 then [digit_char n] else dec (n div 10) @ [digit_char (n mod 10)])"

declare dec.simps [simp del]

fun hex :: "nat \<Rightarrow> string" where
  "hex n = (if n < 16 then [digit_char n] else hex (n div 16) @ [digit_char (n mod 16)])"

declare hex.simps [simp del]

text \<open>\<open>%d\<close> of an \<open>int\<close>, \<open>%lu\<close> of an \<open>unsigned long\<close>, \<open>%04x\<close> of an \<open>int\<close>.\<close>

definition fmt_d :: "u32 \<Rightarrow> string" where
  "fmt_d x = (if sint x < 0 then CHR ''-'' # dec (nat (- sint x)) else dec (nat (sint x)))"

definition fmt_lu :: "u64 \<Rightarrow> string" where
  "fmt_lu x = dec (unat x)"

definition fmt_04x :: "u32 \<Rightarrow> string" where
  "fmt_04x x = (let h = hex (unat x) in replicate (4 - length h) CHR ''0'' @ h)"

text \<open>\<open>snprintf(buf, sz, ...)\<close>: the text is cut to \<open>sz - 1\<close> characters.\<close>

definition snprintf :: "nat \<Rightarrow> string \<Rightarrow> string" where
  "snprintf sz txt = take (sz - 1) txt"

text \<open>An \<open>unsigned char\<close> promoted to \<open>int\<close>.\<close>

definition promote :: "u8 \<Rightarrow> u32" where
  "promote b = ucast b"

definition dotted_quad :: "u8 \<Rightarrow> u8 \<Rightarrow> u8 \<Rightarrow> u8 \<Rightarrow> string" where
  "dotted_quad a b c d =
     fmt_d (promote a) @ ''.'' @ fmt_d (promote b) @ ''.'' @ fmt_d (promote c) @ ''.'' @
     fmt_d (promote d)"

text \<open>
  \<open>strtoll(s, NULL, 16)\<close> of the C library: white space, an optional sign, an optional
  \<open>0x\<close>, then hexadecimal digits up to the first other character; the value saturates
  at the bounds of \<open>long long\<close>.
\<close>

definition hex_digit_val :: "char \<Rightarrow> nat option" where
  "hex_digit_val c =
     (let n = of_char c :: nat in
      if 48 \<le> n \<and> n \<le> 57 then Some (n - 48)
      else if 97 \<le> n \<and> n \<le> 102 then Some (n - 87)
      else if 65 \<le> n \<and> n \<le> 70 then Some (n - 55)
      else None)"

fun hex_digits_val :: "nat \<Rightarrow> string \<Rightarrow> nat" where
  "hex_digits_val acc [] = acc"
| "hex_digits_val acc (c # cs) =
     (case hex_digit_val c of None \<Rightarrow> acc | Some d \<Rightarrow> hex_digits_val (16 * acc + d) cs)"

definition is_space :: "char \<Rightarrow> bool" where
  "is_space c = (of_char c \<in> {9, 10, 11, 12, 13, 32 :: nat})"

definition skip_0x :: "string \<Rightarrow> string" where
  "skip_0x s =
     (case s of
        c0 # cx # c # cs \<Rightarrow>
          if c0 = CHR ''0'' \<and> (cx = CHR ''x'' \<or> cx = CHR ''X'') \<and> hex_digit_val c \<noteq> None
          then c # cs else s
      | _ \<Rightarrow> s)"

definition strtoll16 :: "string \<Rightarrow> u64" where
  "strtoll16 s =
     (let s1 = dropWhile is_space s;
          (neg, s2) = (case s1 of
                         c # cs \<Rightarrow> if c = CHR ''-'' then (True, cs)
                                   else if c = CHR ''+'' then (False, cs) else (False, s1)
                       | [] \<Rightarrow> (False, s1));
          v = int (hex_digits_val 0 (skip_0x s2))
      in if neg then word_of_int (max (- (2 ^ 63)) (- v))
         else word_of_int (min (2 ^ 63 - 1) v))"

subsection \<open>Declarations of parseBMP.h and DbInterface.hpp\<close>

text \<open>
  Modelled from the spec: the lengths, message types and structure layouts of
  parseBMP.h, which is not part of the source at hand. The v3 common header is "5
  further bytes after the version": a 1-byte type and a 4-byte length. The v3 peer
  header is peer_type (1) | peer_flags (1) | peer_dist_id (8) | peer_addr (16) |
  peer_as (4) | peer_bgp_id (4) | ts_secs (4) | ts_usecs (4); the v1/v2 common header
  after its version byte is a type byte followed by the same fields. Message types:
  0 Route-Monitor, 1 Stats-Report, 2 Peer-Down, 3 Peer-Up, 4 Initiation, 5 Termination.
\<close>

definition BMP_HDRv3_LEN :: nat where "BMP_HDRv3_LEN = 5"
definition BMP_HDRv1v2_LEN :: nat where "BMP_HDRv1v2_LEN = 43"
definition BMP_PEER_HDR_LEN :: nat where "BMP_PEER_HDR_LEN = 42"

definition TYPE_ROUTE_MON :: u8 where "TYPE_ROUTE_MON = 0"
definition TYPE_STATS_REPORT :: u8 where "TYPE_STATS_REPORT = 1"
definition TYPE_PEER_DOWN :: u8 where "TYPE_PEER_DOWN = 2"
definition TYPE_PEER_UP :: u8 where "TYPE_PEER_UP = 3"
definition TYPE_INIT_MSG :: u8 where "TYPE_INIT_MSG = 4"
definition TYPE_TERM_MSG :: u8 where "TYPE_TERM_MSG = 5"

text \<open>
  The sizes of the character arrays the code measures with \<open>sizeof\<close>. Their
  declarations are in the two headers, so the sizes are parameters of the model: the
  hash id of a peer, the four text buffers of the class, the local-address text of a
  peer-up event, and the bounded fields of the router record.
\<close>

record layout =
  sz_hash_id :: nat
  sz_peer_addr :: nat
  sz_peer_as :: nat
  sz_peer_rd :: nat
  sz_peer_bgp_id :: nat
  sz_local_ip :: nat
  sz_name :: nat
  sz_descr :: nat
  sz_initiate_data :: nat
  sz_term_data :: nat
  sz_term_reason_text :: nat

text \<open>
  What the host supplies: the string that \<open>inet_ntop(AF_INET6, ...)\<close> produces for 16 address
  bytes, and the value of \<open>time(NULL)\<close>.
\<close>

record host =
  inet_ntop6 :: "u8 list \<Rightarrow> string"
  time_now :: u64

text \<open>
  \<open>inet_ntop(af, src, dst, size)\<close> stores the text only when it fits with its
  terminator; otherwise it fails and \<open>dst\<close> keeps its content. The code ignores the
  return value.
\<close>

definition inet_ntop :: "nat \<Rightarrow> string \<Rightarrow> string \<Rightarrow> string" where
  "inet_ntop sz txt dst = (if length txt < sz then txt else dst)"

text \<open>
  Log entries: the level and the format string of the call. \<open>SELF_DEBUG\<close> output is
  left out, it changes nothing the decoder reads again.
\<close>

datatype level = ERR | NOTICE | INFO

type_synonym log_entry = "level \<times> string"

text \<open>
  \<open>DbInterface::tbl_bgp_peer\<close>. Text fields hold the C string stored in them. The
  \<open>strncpy\<close> calls that fill them copy \<open>sizeof\<close> of the class buffer, taken to fit
  the field. The peer AS is the "64-bit integer" of the spec's data model.
\<close>

record tbl_bgp_peer =
  hash_id :: "u8 list"
  p_peer_addr :: string
  p_peer_as :: u64
  p_peer_bgp_id :: string
  p_peer_rd :: string
  isIPv4 :: bool
  isPrePolicy :: bool
  isL3VPN :: bool
  timestamp_secs :: u64

text \<open>The members of class \<open>parseBMP\<close>, with the socket, the logger and \<open>*p_entry\<close>.\<close>

record parser =
  sock :: socket
  logs :: "log_entry list"
  bmp_type :: u8
  bmp_len :: u32
  p_entry :: tbl_bgp_peer
  peer_addr :: string
  peer_as :: string
  peer_rd :: string
  peer_bgp_id :: string

text \<open>
  The constructor, lines 34 to 43: the type is "initially set to error", the length is
  0 and \<open>*p_entry\<close> is zeroed. The text buffers of the class are not initialised; the
  model starts them empty.
\<close>

definition parseBMP :: "layout \<Rightarrow> socket \<Rightarrow> parser" where
  "parseBMP L s =
     \<lparr>sock = s, logs = [], bmp_type = - 1, bmp_len = 0,
      p_entry = \<lparr>hash_id = replicate (sz_hash_id L) 0, p_peer_addr = [], p_peer_as = 0,
                  p_peer_bgp_id = [], p_peer_rd = [], isIPv4 = False, isPrePolicy = False,
                  isL3VPN = False, timestamp_secs = 0\<rparr>,
      peer_addr = [], peer_as = [], peer_rd = [], peer_bgp_id = []\<rparr>"

definition log_msg :: "level \<Rightarrow> string \<Rightarrow> parser \<Rightarrow> parser" where
  "log_msg lv msg P = P\<lparr>logs := logs P @ [(lv, msg)]\<rparr>"

subsection \<open>Peer header fields\<close>

text \<open>
  The conversion of the peer AS to text, lines 216 to 218 and 322 to 324:
  \<open>"0x%04x%04x", as[0] << 8 | as[1], as[2] << 8 | as[3]\<close>.
\<close>

definition peer_as_text :: "u8 list \<Rightarrow> string" where
  "peer_as_text a =
     ''0x'' @ fmt_04x (push_bit 8 (promote (a ! 0)) OR promote (a ! 1))
           @ fmt_04x (push_bit 8 (promote (a ! 2)) OR promote (a ! 3))"

text \<open>
  The switch on the route distinguisher type, lines 224 to 246 and 329 to 352 (the same
  text in both functions, up to the name of the header variable). The shifts are done
  in \<open>int\<close>; the cast to \<open>unsigned long\<close> extends the sign.
\<close>

definition peer_rd_text :: "u8 list \<Rightarrow> string" where
  "peer_rd_text d =
     (let t = push_bit 8 (promote (d ! 0)) OR promote (d ! 1) in
      if t = 1 then
        fmt_d (promote (d ! 2)) @ ''.'' @ fmt_d (promote (d ! 3)) @ ''.'' @
        fmt_d (promote (d ! 4)) @ ''.'' @ fmt_d (promote (d ! 5)) @ '':'' @
        fmt_d (push_bit 8 (promote (d ! 6)) OR promote (d ! 7))
      else if t = 2 then
        fmt_lu (scast (push_bit 24 (promote (d ! 2)) OR push_bit 16 (promote (d ! 3))
                       OR push_bit 8 (promote (d ! 4)) OR promote (d ! 5))) @ '':'' @
        fmt_d (push_bit 8 (promote (d ! 6)) OR promote (d ! 7))
      else
        fmt_d (push_bit 8 (promote (d ! 1)) OR promote (d ! 2)) @ '':'' @
        fmt_lu (scast (push_bit 24 (promote (d ! 3)) OR push_bit 16 (promote (d ! 4))
                       OR push_bit 8 (promote (d ! 5)) OR promote (d ! 6)
                       OR promote (d ! 7))))"

text \<open>
  The advertised timestamp, lines 255 to 260 and 361 to 366: the four bytes are
  reversed, and a value of zero is replaced by \<open>time(NULL)\<close>.
\<close>

definition advertised_timestamp :: "host \<Rightarrow> u8 list \<Rightarrow> u64" where
  "advertised_timestamp H ts_secs =
     (let ts = host_val (reverseBytes ts_secs) :: u32 in
      if ts \<noteq> 0 then ucast ts else time_now H)"

subsection \<open>parsePeerHdr, parseBMPv2, parseBMPv3, handleMessage\<close>

text \<open>
  A function that can throw returns the fault or its value, together with the state it
  leaves behind.
\<close>

type_synonym 'a result = "(fault + 'a) \<times> parser"

definition parsePeerHdr :: "layout \<Rightarrow> host \<Rightarrow> parser \<Rightarrow> parser" where
  "parsePeerHdr L H P =
     (let (i, got, s) = recv (sock P) BMP_PEER_HDR_LEN;
          p_hdr = zero_filled BMP_PEER_HDR_LEN got;
          P0 = P\<lparr>sock := s\<rparr>;
          P1 = (if i \<noteq> int BMP_PEER_HDR_LEN
                then log_msg ERR ''sock=%d: Couldn't read all bytes, read %d bytes'' P0
                else P0);
          hdr_peer_type = p_hdr ! 0;
          hdr_peer_flags = p_hdr ! 1;
          hdr_peer_dist_id = field 2 8 p_hdr;
          hdr_peer_addr = field 10 16 p_hdr;
          hdr_peer_as = field 26 4 p_hdr;
          hdr_peer_bgp_id = field 30 4 p_hdr;
          hdr_ts_secs = field 34 4 p_hdr;
          P2 = (if hdr_peer_flags AND 0x80 \<noteq> 0
                then P1\<lparr>p_entry := (p_entry P1)\<lparr>isIPv4 := False\<rparr>,
                        peer_addr := inet_ntop (sz_peer_addr L) (inet_ntop6 H hdr_peer_addr)
                                       (peer_addr P1)\<rparr>
                else P1\<lparr>p_entry := (p_entry P1)\<lparr>isIPv4 := True\<rparr>,
                        peer_addr := snprintf (sz_peer_addr L)
                                       (dotted_quad (hdr_peer_addr ! 12) (hdr_peer_addr ! 13)
                                          (hdr_peer_addr ! 14) (hdr_peer_addr ! 15))\<rparr>);
          P3 = (if hdr_peer_flags AND 0x40 \<noteq> 0
                then P2\<lparr>p_entry := (p_entry P2)\<lparr>isPrePolicy := False\<rparr>\<rparr>
                else P2\<lparr>p_entry := (p_entry P2)\<lparr>isPrePolicy := True\<rparr>\<rparr>);
          P4 = P3\<lparr>peer_as := snprintf (sz_peer_as L) (peer_as_text hdr_peer_as),
                  peer_bgp_id := inet_ntop (sz_peer_bgp_id L)
                                   (dotted_quad (hdr_peer_bgp_id ! 0) (hdr_peer_bgp_id ! 1)
                                      (hdr_peer_bgp_id ! 2) (hdr_peer_bgp_id ! 3))
                                   (peer_bgp_id P3),
                  peer_rd := snprintf (sz_peer_rd L) (peer_rd_text hdr_peer_dist_id)\<rparr>
      in P4\<lparr>p_entry := (p_entry P4)
                \<lparr>p_peer_addr := peer_addr P4,
                 p_peer_as := strtoll16 (peer_as P4),
                 p_peer_bgp_id := peer_bgp_id P4,
                 p_peer_rd := peer_rd P4,
                 timestamp_secs := advertised_timestamp H hdr_ts_secs,
                 isL3VPN := (hdr_peer_type = 1)\<rparr>\<rparr>)"

definition parseBMPv2 :: "layout \<Rightarrow> host \<Rightarrow> parser \<Rightarrow> unit result" where
  "parseBMPv2 L H P =
     (let (i, c_hdr, s) = recv (sock P) BMP_HDRv1v2_LEN;
          P0 = P\<lparr>sock := s\<rparr>
      in if i \<noteq> int BMP_HDRv1v2_LEN
         then (Inl (Throw ''ERROR: Cannot read v1/v2 BMP common header.''), P0)
         else
           let hdr_type = c_hdr ! 0;
               hdr_peer_flags = c_hdr ! 2;
               hdr_peer_dist_id = field 3 8 c_hdr;
               hdr_peer_addr = field 11 16 c_hdr;
               hdr_peer_as = field 27 4 c_hdr;
               hdr_peer_bgp_id = field 31 4 c_hdr;
               hdr_ts_secs = field 35 4 c_hdr;
               P1 = P0\<lparr>bmp_type := hdr_type\<rparr>;
               P2 = (if hdr_peer_flags AND 0x80 \<noteq> 0
                     then P1\<lparr>p_entry := (p_entry P1)\<lparr>isIPv4 := False\<rparr>,
                             peer_addr := inet_ntop (sz_peer_addr L)
                                            (inet_ntop6 H hdr_peer_addr) (peer_addr P1)\<rparr>
                     else P1\<lparr>p_entry := (p_entry P1)\<lparr>isIPv4 := True\<rparr>,
                             peer_addr := snprintf (sz_peer_addr L)
                                            (dotted_quad (hdr_peer_addr ! 12)
                                               (hdr_peer_addr ! 13) (hdr_peer_addr ! 14)
                                               (hdr_peer_addr ! 15))\<rparr>);
               P3 = P2\<lparr>peer_as := snprintf (sz_peer_as L) (peer_as_text hdr_peer_as),
                       peer_bgp_id := snprintf (sz_peer_bgp_id L)
                                        (dotted_quad (hdr_peer_bgp_id ! 0)
                                           (hdr_peer_bgp_id ! 1) (hdr_peer_bgp_id ! 2)
                                           (hdr_peer_bgp_id ! 3)),
                       peer_rd := snprintf (sz_peer_rd L) (peer_rd_text hdr_peer_dist_id)\<rparr>
           in (Inr (),
               P3\<lparr>p_entry := (p_entry P3)
                     \<lparr>p_peer_addr := peer_addr P3,
                      p_peer_as := strtoll16 (peer_as P3),
                      p_peer_bgp_id := peer_bgp_id P3,
                      p_peer_rd := peer_rd P3,
                      timestamp_secs := advertised_timestamp H hdr_ts_secs,
                      isL3VPN := (hdr_type = 1)\<rparr>\<rparr>))"

definition parseBMPv3 :: "layout \<Rightarrow> host \<Rightarrow> parser \<Rightarrow> unit result" where
  "parseBMPv3 L H P =
     (let (i, c_hdr, s) = recv (sock P) BMP_HDRv3_LEN;
          P0 = P\<lparr>sock := s\<rparr>
      in if i \<noteq> int BMP_HDRv3_LEN
         then (Inl (Throw ''ERROR: Cannot read v3 BMP common header.''), P0)
         else
           let hdr_type = c_hdr ! 0;
               hdr_len = host_val (reverseBytes (field 1 4 c_hdr)) :: u32;
               hdr_len' = hdr_len - (1 + of_nat BMP_HDRv3_LEN);
               P1 = P0\<lparr>bmp_type := hdr_type, bmp_len := hdr_len'\<rparr>
           in if hdr_type = TYPE_ROUTE_MON \<or> hdr_type = TYPE_STATS_REPORT
                 \<or> hdr_type = TYPE_PEER_UP \<or> hdr_type = TYPE_PEER_DOWN
              then (Inr (), parsePeerHdr L H P1)
              else (Inr (), P1))"

definition handleMessage :: "layout \<Rightarrow> host \<Rightarrow> parser \<Rightarrow> u8 result" where
  "handleMessage L H P =
     (let (bytes_read, got, s) = recv (sock P) 1;
          P0 = P\<lparr>sock := s\<rparr>
      in if bytes_read < 0 then (Inl (Throw ''(1) Failed to read from socket.''), P0)
         else if bytes_read = 0 then (Inl (Throw ''(2) Connection closed''), P0)
         else if bytes_read \<noteq> 1
         then (Inl (Throw ''(3) Cannot read the BMP version byte from socket''), P0)
         else
           let ver = got ! 0 in
           if ver = 3
           then (case parseBMPv3 L H P0 of
                   (Inl e, P1) \<Rightarrow> (Inl e, P1)
                 | (Inr _, P1) \<Rightarrow> (Inr (bmp_type P1), P1))
           else if ver = 1 \<or> ver = 2
           then (case parseBMPv2 L H P0 of
                   (Inl e, P1) \<Rightarrow> (Inl e, P1)
                 | (Inr _, P1) \<Rightarrow> (Inr (bmp_type P1), P1))
           else (Inl (Throw ''ERROR: Unsupported BMP message version''), P0))"

subsection \<open>parsePeerUpEventHdr\<close>

text \<open>
  \<open>DbInterface::tbl_peer_up_event\<close>, passed by reference: the function's changes to it
  are part of its result whatever it returns.
\<close>

record tbl_peer_up_event =
  up_peer_hash_id :: "u8 list"
  up_timestamp_secs :: u64
  local_ip :: string
  local_port :: u16
  remote_port :: u16

text \<open>
  A 2-byte port read straight into the field of the event: a short read has already
  stored the bytes it got; a full one is followed by \<open>reverseBytes\<close>.
\<close>

definition recv_port :: "socket \<Rightarrow> u16 \<Rightarrow> bool \<times> u16 \<times> socket" where
  "recv_port s port =
     (let (n, got, s') = recv s 2 in
      if n \<noteq> 2 then (False, memcpy_int 2 port got, s')
      else (True, host_val (reverseBytes got), s'))"

definition parsePeerUpEventHdr ::
  "layout \<Rightarrow> host \<Rightarrow> parser \<Rightarrow> tbl_peer_up_event \<Rightarrow>
     (fault + bool) \<times> tbl_peer_up_event \<times> parser" where
  "parsePeerUpEventHdr L H P up_event =
     (let up0 = up_event\<lparr>up_timestamp_secs := timestamp_secs (p_entry P),
                          up_peer_hash_id := hash_id (p_entry P)\<rparr>;
          (n1, local_addr, s1) = recv (sock P) 16;
          good1 = (n1 = 16);
          read1 = (if good1 then 16 else 0 :: nat);
          up1 = (if good1 \<and> isIPv4 (p_entry P)
                 then up0\<lparr>local_ip := snprintf (sz_local_ip L)
                                        (dotted_quad (local_addr ! 12) (local_addr ! 13)
                                           (local_addr ! 14) (local_addr ! 15))\<rparr>
                 else if good1
                 then up0\<lparr>local_ip := inet_ntop (sz_local_ip L) (inet_ntop6 H local_addr)
                                        (local_ip up0)\<rparr>
                 else up0);
          (good2, read2, up2, s2) =
            (if good1
             then (let (ok, port, s') = recv_port s1 (local_port up1)
                   in (ok, if ok then read1 + 2 else read1, up1\<lparr>local_port := port\<rparr>, s'))
             else (False, read1, up1, s1));
          (good3, bytes_read, up3, s3) =
            (if good2
             then (let (ok, port, s') = recv_port s2 (remote_port up2)
                   in (ok, if ok then read2 + 2 else read2, up2\<lparr>remote_port := port\<rparr>, s'))
             else (False, read2, up2, s2));
          P3 = P\<lparr>sock := s3\<rparr>
      in if good3 then (Inr True, up3, P3)
         else
           let P4 = log_msg NOTICE
                      ''%s: PEER UP header failed to be parsed, read only %d bytes of the header''
                      P3;
               bytes_to_read = bmp_len P - of_nat BMP_PEER_HDR_LEN - of_nat bytes_read
           in if sint bytes_to_read < 0 then (Inl BadArrayLength, up3, P4)
              else (let (n, buf, s4) = recv (sock P4) (unat bytes_to_read)
                    in (Inr False, up3, P4\<lparr>sock := s4\<rparr>)))"

subsection \<open>handleStatsReport\<close>

text \<open>
  \<open>DbInterface::tbl_stats_report\<close>. The spec gives each counter as "a 32- or 64-bit
  unsigned integer"; the model keeps 64 bits for each, and a copy of 4 bytes replaces
  the low half.

  Modelled from the spec: the stats type codes of parseBMP.h, 0 to 8 in the order
  prefix-rejected, duplicate-prefix, duplicate-withdraw, invalid-cluster-list,
  invalid-as-path-loop, invalid-originator-id, invalid-as-confed-loop,
  num-routes-adj-rib-in, num-routes-loc-rib.
\<close>

record tbl_stats_report =
  st_peer_hash_id :: "u8 list"
  prefixes_rej :: u64
  known_dup_prefixes :: u64
  known_dup_withdraws :: u64
  invalid_cluster_list :: u64
  invalid_as_path_loop :: u64
  invalid_originator_id :: u64
  invalid_as_confed_loop :: u64
  routes_adj_rib_in :: u64
  routes_loc_rib :: u64

definition STATS_PREFIX_REJ :: u16 where "STATS_PREFIX_REJ = 0"
definition STATS_DUP_PREFIX :: u16 where "STATS_DUP_PREFIX = 1"
definition STATS_DUP_WITHDRAW :: u16 where "STATS_DUP_WITHDRAW = 2"
definition STATS_INVALID_CLUSTER_LIST :: u16 where "STATS_INVALID_CLUSTER_LIST = 3"
definition STATS_INVALID_AS_PATH_LOOP :: u16 where "STATS_INVALID_AS_PATH_LOOP = 4"
definition STATS_INVALID_ORIGINATOR_ID :: u16 where "STATS_INVALID_ORIGINATOR_ID = 5"
definition STATS_INVALID_AS_CONFED_LOOP :: u16 where "STATS_INVALID_AS_CONFED_LOOP = 6"
definition STATS_NUM_ROUTES_ADJ_RIB_IN :: u16 where "STATS_NUM_ROUTES_ADJ_RIB_IN = 7"
definition STATS_NUM_ROUTES_LOC_RIB :: u16 where "STATS_NUM_ROUTES_LOC_RIB = 8"

text \<open>The switch on \<open>stat_type\<close>, lines 502 to 530: \<open>memcpy\<close> of \<open>b\<close> into one counter.\<close>

definition store_counter :: "u16 \<Rightarrow> u8 list \<Rightarrow> tbl_stats_report \<Rightarrow> tbl_stats_report" where
  "store_counter stat_type b stats =
     (if stat_type = STATS_PREFIX_REJ
      then stats\<lparr>prefixes_rej := memcpy_int 8 (prefixes_rej stats) b\<rparr>
      else if stat_type = STATS_DUP_PREFIX
      then stats\<lparr>known_dup_prefixes := memcpy_int 8 (known_dup_prefixes stats) b\<rparr>
      else if stat_type = STATS_DUP_WITHDRAW
      then stats\<lparr>known_dup_withdraws := memcpy_int 8 (known_dup_withdraws stats) b\<rparr>
      else if stat_type = STATS_INVALID_CLUSTER_LIST
      then stats\<lparr>invalid_cluster_list := memcpy_int 8 (invalid_cluster_list stats) b\<rparr>
      else if stat_type = STATS_INVALID_AS_PATH_LOOP
      then stats\<lparr>invalid_as_path_loop := memcpy_int 8 (invalid_as_path_loop stats) b\<rparr>
      else if stat_type = STATS_INVALID_ORIGINATOR_ID
      then stats\<lparr>invalid_originator_id := memcpy_int 8 (invalid_originator_id stats) b\<rparr>
      else if stat_type = STATS_INVALID_AS_CONFED_LOOP
      then stats\<lparr>invalid_as_confed_loop := memcpy_int 8 (invalid_as_confed_loop stats) b\<rparr>
      else if stat_type = STATS_NUM_ROUTES_ADJ_RIB_IN
      then stats\<lparr>routes_adj_rib_in := memcpy_int 8 (routes_adj_rib_in stats) b\<rparr>
      else if stat_type = STATS_NUM_ROUTES_LOC_RIB
      then stats\<lparr>routes_loc_rib := memcpy_int 8 (routes_loc_rib stats) b\<rparr>
      else stats)"

text \<open>\<open>while (stat_len-- > 0) read(sock, &b[0], 1);\<close> The result of \<open>read\<close> is not looked at.\<close>

fun skip_bytes :: "nat \<Rightarrow> socket \<Rightarrow> socket" where
  "skip_bytes 0 s = s"
| "skip_bytes (Suc n) s = skip_bytes n (snd (snd (recv s 1)))"

text \<open>
  One stats object, the body of the loop at lines 481 to 541. The value is received
  into \<open>unsigned char b[4]\<close>, declared at line 461: a \<open>recv\<close> that stores more than 4
  bytes writes beyond it.
\<close>

definition stats_object ::
  "socket \<Rightarrow> tbl_stats_report \<Rightarrow> (fault + tbl_stats_report) \<times> socket" where
  "stats_object s stats =
     (let (n1, type_mem, s1) = recv s 2 in
      if n1 \<noteq> 2
      then (Inl (Throw ''ERROR: Cannot proceed since we cannot read the stats type.''), s1)
      else
        let (n2, len_mem, s2) = recv s1 2 in
        if n2 \<noteq> 2
        then (Inl (Throw ''ERROR: Cannot proceed since we cannot read the stats len.''), s2)
        else
          let stat_type = host_val (reverseBytes type_mem) :: u16;
              stat_len = host_val (reverseBytes len_mem) :: u16
          in if stat_len = 4 \<or> stat_len = 8
             then (let (n3, b, s3) = recv s2 (unat stat_len) in
                   if 4 < length b then (Inl (Undefined (WriteBeyond (length b) 4)), s3)
                   else if n3 = int (unat stat_len)
                   then (Inr (store_counter stat_type (reverseBytes b) stats), s3)
                   else (Inr stats, s3))
             else (Inr stats, skip_bytes (unat stat_len) s2))"

fun stats_loop ::
  "nat \<Rightarrow> socket \<Rightarrow> tbl_stats_report \<Rightarrow> (fault + tbl_stats_report) \<times> socket" where
  "stats_loop 0 s stats = (Inr stats, s)"
| "stats_loop (Suc k) s stats =
     (case stats_object s stats of
        (Inl e, s') \<Rightarrow> (Inl e, s')
      | (Inr stats', s') \<Rightarrow> stats_loop k s' stats')"

text \<open>
  \<open>tbl_stats_report stats = { 0 }\<close>, and the function itself. The storage sink is the
  list of the records handed to \<open>add_StatReport\<close>, in order.
\<close>

definition stats_zero :: tbl_stats_report where
  "stats_zero =
     \<lparr>st_peer_hash_id = [], prefixes_rej = 0, known_dup_prefixes = 0,
      known_dup_withdraws = 0, invalid_cluster_list = 0, invalid_as_path_loop = 0,
      invalid_originator_id = 0, invalid_as_confed_loop = 0, routes_adj_rib_in = 0,
      routes_loc_rib = 0\<rparr>"

definition handleStatsReport ::
  "parser \<Rightarrow> tbl_stats_report list \<Rightarrow> (fault + unit) \<times> parser \<times> tbl_stats_report list" where
  "handleStatsReport P add_StatReport =
     (let (n, b, s) = recv (sock P) 4 in
      if n \<noteq> 4
      then (Inl (Throw ''ERROR:  Cannot proceed since we cannot read the stats mon counter''),
            P\<lparr>sock := s\<rparr>, add_StatReport)
      else
        let stats_cnt = memcpy_int 8 (0 :: u64) (reverseBytes b);
            stats = stats_zero\<lparr>st_peer_hash_id := hash_id (p_entry P)\<rparr>
        in case stats_loop (unat stats_cnt) s stats of
             (Inl e, s') \<Rightarrow> (Inl e, P\<lparr>sock := s'\<rparr>, add_StatReport)
           | (Inr stats', s') \<Rightarrow> (Inr (), P\<lparr>sock := s'\<rparr>, add_StatReport @ [stats']))"

subsection \<open>handleInitMsg and handleTermMsg\<close>

text \<open>
  \<open>DbInterface::tbl_router\<close>. The bounded fields are the bytes of their arrays.

  Modelled from the spec: the TLV header of parseBMP.h, a 2-byte type and a 2-byte
  length, both big-endian on the wire (\<open>BMP_INIT_MSG_LEN\<close> and \<open>BMP_TERM_MSG_LEN\<close>
  are 4); the Initiation types 0 free-form string, 1 sysDescr, 2 sysName; the
  Termination types 0 free-form string, 1 reason; the reason codes 0 unspecified,
  1 admin-close, 2 out-of-resources, 3 redundant.
\<close>

record tbl_router =
  name :: "u8 list"
  descr :: "u8 list"
  src_addr :: string
  initiate_data :: "u8 list"
  term_data :: "u8 list"
  term_reason_code :: u16
  term_reason_text :: string

definition BMP_INIT_MSG_LEN :: nat where "BMP_INIT_MSG_LEN = 4"

definition INIT_TYPE_FREE_FORM_STRING :: u16 where "INIT_TYPE_FREE_FORM_STRING = 0"
definition INIT_TYPE_SYSDESCR :: u16 where "INIT_TYPE_SYSDESCR = 1"
definition INIT_TYPE_SYSNAME :: u16 where "INIT_TYPE_SYSNAME = 2"



text \<open>
  \<open>memcpy(dst, src, n)\<close> from an array \<open>src\<close> (or the null pointer) into a field \<open>dst\<close>
  of a record. Copying no bytes changes nothing; otherwise \<open>n\<close> bytes are read from
  \<open>src\<close> and written over the start of \<open>dst\<close>, and both arrays must hold them.
\<close>

definition memcpy_field :: "u8 list \<Rightarrow> u8 list option \<Rightarrow> nat \<Rightarrow> ub + u8 list" where
  "memcpy_field dst src n =
     (if n = 0 then Inr dst
      else case src of
             None \<Rightarrow> Inl NullPointer
           | Some a \<Rightarrow>
               if length dst < n then Inl (WriteBeyond n (length dst))
               else if length a < n then Inl (ReadBeyond n (length a))
               else Inr (take n a @ drop n dst))"

text \<open>
  \<open>strncpy(dst, src, n)\<close> with \<open>n = sizeof(dst)\<close>: the characters of \<open>src\<close> before its
  first zero byte, cut to \<open>n\<close> or padded with zero bytes up to \<open>n\<close>. An array \<open>src\<close>
  without a zero byte and shorter than \<open>n\<close> is read beyond its end.
\<close>

definition strncpy :: "u8 list option \<Rightarrow> nat \<Rightarrow> ub + u8 list" where
  "strncpy src n =
     (case src of
        None \<Rightarrow> Inl NullPointer
      | Some a \<Rightarrow>
          let str = takeWhile (\<lambda>c. c \<noteq> 0) a in
          if n \<le> length str then Inr (take n str)
          else if length str < length a then Inr (str @ replicate (n - length str) 0)
          else Inl (ReadBeyond (length a + 1) (length a)))"

text \<open>
  The part of the loop body shared by both decoders, lines 574 to 595 and 660 to 680:
  the TLV header at offset \<open>i\<close> of the message buffer, and the value copied into a
  zeroed \<open>infoBuf\<close> of \<open>cap\<close> bytes when the length is not zero. The result is the type,
  the length, \<open>info\<close> (the null pointer or \<open>infoBuf\<close>) and the offset after the value.
\<close>

definition read_tlv ::
  "nat \<Rightarrow> u8 list \<Rightarrow> nat \<Rightarrow> ub + (u16 \<times> u16 \<times> u8 list option \<times> nat)" where
  "read_tlv cap buf i =
     (if length buf < i + 4 then Inl (ReadBeyond (i + 4) (length buf))
      else
        let tlv_type = host_val (reverseBytes (field i 2 buf)) :: u16;
            tlv_len = host_val (reverseBytes (field (i + 2) 2 buf)) :: u16
        in if 0 < tlv_len
           then (let infoLen = (if cap < unat tlv_len then cap else unat tlv_len) in
                 if length buf < i + 4 + infoLen
                 then Inl (ReadBeyond (i + 4 + infoLen) (length buf))
                 else Inr (tlv_type, tlv_len,
                           Some (zero_filled cap (field (i + 4) infoLen buf)), i + infoLen))
           else Inr (tlv_type, tlv_len, None, i))"

text \<open>The switch on \<open>initMsg.type\<close>, lines 600 to 615.\<close>

definition save_init_info ::
  "layout \<Rightarrow> u16 \<Rightarrow> u16 \<Rightarrow> u8 list option \<Rightarrow> tbl_router \<Rightarrow> log_entry list \<Rightarrow>
     ub + (tbl_router \<times> log_entry list)" where
  "save_init_info L tlv_type tlv_len info r lg =
     (if tlv_type = INIT_TYPE_FREE_FORM_STRING
      then (case memcpy_field (initiate_data r) info (unat tlv_len) of
              Inl u \<Rightarrow> Inl u
            | Inr d \<Rightarrow> Inr (r\<lparr>initiate_data := d\<rparr>, lg))
      else if tlv_type = INIT_TYPE_SYSNAME
      then (case strncpy info (sz_name L) of
              Inl u \<Rightarrow> Inl u
            | Inr d \<Rightarrow> Inr (r\<lparr>name := d\<rparr>, lg))
      else if tlv_type = INIT_TYPE_SYSDESCR
      then (case strncpy info (sz_descr L) of
              Inl u \<Rightarrow> Inl u
            | Inr d \<Rightarrow> Inr (r\<lparr>descr := d\<rparr>, lg))
      else Inr (r, lg @ [(NOTICE, ''Init message type %hu is unexpected per draft-07'')]))"

text \<open>
  The loop of lines 573 to 620 over the buffer of \<open>bmp_len\<close> bytes. The state is the
  router record, the log and the records handed to \<open>update_Router\<close>.
\<close>

type_synonym init_state = "tbl_router \<times> log_entry list \<times> tbl_router list"

function init_loop ::
  "layout \<Rightarrow> nat \<Rightarrow> u8 list \<Rightarrow> nat \<Rightarrow> init_state \<Rightarrow> (fault + unit) \<times> init_state" where
  "init_loop L len buf i (r, lg, db) =
     (if \<not> i < len then (Inr (), r, lg, db)
      else
        case read_tlv (sz_initiate_data L) buf i of
          Inl u \<Rightarrow> (Inl (Undefined u), r, lg, db)
        | Inr (tlv_type, tlv_len, info, i') \<Rightarrow>
            let lg1 = lg @ [(INFO, ''Init message type %hu and length %hu parsed'')];
                lg2 = (if 0 < tlv_len then lg1 @ [(INFO, ''Init message type %hu = %s'')]
                       else lg1)
            in (case save_init_info L tlv_type tlv_len info r lg2 of
                  Inl u \<Rightarrow> (Inl (Undefined u), r, lg2, db)
                | Inr (r', lg3) \<Rightarrow>
                    init_loop L len buf (i' + BMP_INIT_MSG_LEN) (r', lg3, db @ [r'])))"
  by pat_completeness auto
termination
  by (relation "measure (\<lambda>(L, len, buf, i, st). len - i)")
     (auto simp: read_tlv_def BMP_INIT_MSG_LEN_def Let_def split: if_splits)

declare init_loop.simps [simp del]

definition handleInitMsg ::
  "layout \<Rightarrow> parser \<Rightarrow> tbl_router \<Rightarrow> tbl_router list \<Rightarrow>
     (fault + unit) \<times> parser \<times> tbl_router \<times> tbl_router list" where
  "handleInitMsg L P r_entry update_Router =
     (if bmp_len P \<le> 40000
      then (let (n, buf, s) = recv (sock P) (unat (bmp_len P));
                P0 = P\<lparr>sock := s\<rparr>
            in if n \<noteq> int (unat (bmp_len P))
               then (Inl (Throw ''ERROR: Failed to read complete init message from socket.''),
                     P0, r_entry, update_Router)
               else (case init_loop L (unat (bmp_len P)) buf 0
                            (r_entry, logs P0, update_Router) of
                       (res, r', lg, db) \<Rightarrow> (res, P0\<lparr>logs := lg\<rparr>, r', db)))
      else (Inr (),
            log_msg NOTICE
              ''Init message length of %u is too large to process, must be less than 40K'' P,
            r_entry, update_Router))"







subsection \<open>The message body as a sequence of TLVs\<close>







subsection \<open>Concrete instances\<close>

text \<open>
  The decoder is run below on concrete messages. That needs a layout, a host, a stream
  that ends with an orderly close, and records as a caller would pass them: a router
  record and a peer-up event with every byte zero.
\<close>

definition example_layout :: layout where
  "example_layout =
     \<lparr>sz_hash_id = 16, sz_peer_addr = 40, sz_peer_as = 32, sz_peer_rd = 32,
      sz_peer_bgp_id = 16, sz_local_ip = 40, sz_name = 255, sz_descr = 255,
      sz_initiate_data = 4096, sz_term_data = 4096, sz_term_reason_text = 255\<rparr>"

definition example_host :: host where
  "example_host = \<lparr>inet_ntop6 = (\<lambda>a. ''::''), time_now = 1700000000\<rparr>"

definition stream :: "u8 list \<Rightarrow> socket" where
  "stream bs = \<lparr>pending = bs, at_end = Closed\<rparr>"

definition zeroed_router :: "layout \<Rightarrow> tbl_router" where
  "zeroed_router L =
     \<lparr>name = replicate (sz_name L) 0, descr = replicate (sz_descr L) 0, src_addr = [],
      initiate_data = replicate (sz_initiate_data L) 0,
      term_data = replicate (sz_term_data L) 0, term_reason_code = 0,
      term_reason_text = []\<rparr>"




definition zeroed_up_event :: "layout \<Rightarrow> tbl_peer_up_event" where
  "zeroed_up_event L =
     \<lparr>up_peer_hash_id = replicate (sz_hash_id L) 0, up_timestamp_secs = 0, local_ip = [],
      local_port = 0, remote_port = 0\<rparr>"

section \<open>Properties\<close>

subsection \<open>Auxiliary facts\<close>

lemma recv_enough:
  "0 < n \<Longrightarrow> n \<le> length (pending s) \<Longrightarrow>
     recv s n = (int n, take n (pending s), s\<lparr>pending := drop n (pending s)\<rparr>)"
  by (auto simp: recv_def)

lemma recv_byte:
  "pending s = b # rest \<Longrightarrow> recv s 1 = (1, [b], s\<lparr>pending := rest\<rparr>)"
  by (simp add: recv_def)

lemma recv_nothing:
  "pending s = [] \<Longrightarrow> recv s n = ((case at_end s of Closed \<Rightarrow> 0 | IOError \<Rightarrow> - 1), [], s)"
  by (simp add: recv_def)

lemma recv_after_drop:
  assumes "0 < n" and "k + n \<le> length (pending s)"
  shows "recv (s\<lparr>pending := drop k (pending s)\<rparr>) n =
           (int n, take n (drop k (pending s)), s\<lparr>pending := drop (k + n) (pending s)\<rparr>)"
proof -
  have "n \<le> length (pending (s\<lparr>pending := drop k (pending s)\<rparr>))"
    using assms by simp
  then show ?thesis
    using assms(1) by (simp add: recv_enough add.commute)
qed


lemma recv_short:
  "length (pending s) < n \<Longrightarrow> fst (recv s n) \<noteq> int n"
  by (auto simp: recv_def split: sock_end.splits)

lemma host_val_reverseBytes: "host_val (reverseBytes bs) = be_val bs"
  by (simp add: host_val_def reverseBytes_def)

lemma unat_u8_bound: "unat (a :: u8) < 256"
  using unsigned_less [of a, where 'a = nat] by simp

lemma unat_be_val4:
  "unat (be_val [a, b, c, d] :: u32) =
     2 ^ 24 * unat a + 2 ^ 16 * unat b + 2 ^ 8 * unat c + unat d"
proof -
  let ?n = "2 ^ 24 * unat a + 2 ^ 16 * unat b + 2 ^ 8 * unat c + unat d"
  have "unat a < 256" "unat b < 256" "unat c < 256" "unat d < 256"
    by (rule unat_u8_bound)+
  then have less: "?n < 2 ^ 32"
    by simp
  have "foldl (\<lambda>acc b. 256 * acc + unat b) 0 [a, b, c, d] = ?n"
    by simp
  then have "unat (be_val [a, b, c, d] :: u32) = ?n mod 2 ^ 32"
    by (simp only: be_val_def unat_of_nat) simp
  with less show ?thesis
    by simp
qed

lemma parsePeerHdr_bmp_len: "bmp_len (parsePeerHdr L H P) = bmp_len P"
  by (simp add: parsePeerHdr_def Let_def split_def log_msg_def)

lemma parsePeerHdr_bmp_type: "bmp_type (parsePeerHdr L H P) = bmp_type P"
  by (simp add: parsePeerHdr_def Let_def split_def log_msg_def)

subsection \<open>The v3 common header\<close>

text \<open>
  Claim C4. When the five bytes of a v3 common header are there, \<open>parseBMPv3\<close> does
  not throw, exposes the type byte as \<open>bmp_type\<close>, and sets \<open>bmp_len\<close> to the wire
  length \<open>len\<close> (big-endian, four bytes) minus \<open>1 + BMP_HDRv3_LEN\<close> in 32-bit
  arithmetic. A length that counts the whole message is at least the six bytes of
  version, type and length; for such a length \<open>bmp_len\<close> is the number \<open>len - 6\<close> of
  bytes that follow those fields.
\<close>

theorem parseBMPv3_bmp_len:
  assumes "pending (sock P) = t # la # lb # lc # ld # rest"
    and "len = 2 ^ 24 * unat la + 2 ^ 16 * unat lb + 2 ^ 8 * unat lc + unat ld"
  shows "\<exists>P'. parseBMPv3 L H P = (Inr (), P') \<and> bmp_type P' = t \<and>
           bmp_len P' = of_nat len - (1 + of_nat BMP_HDRv3_LEN) \<and>
           (1 + BMP_HDRv3_LEN \<le> len \<longrightarrow> unat (bmp_len P') = len - (1 + BMP_HDRv3_LEN))"
proof -
  let ?w = "be_val [la, lb, lc, ld] :: u32"
  have w: "unat ?w = len"
    using assms(2) by (simp add: unat_be_val4)
  have "?w = of_nat (unat ?w)"
    by simp
  then have w': "?w = of_nat len"
    by (simp only: w)
  have r: "recv (sock P) 5 = (5, [t, la, lb, lc, ld], (sock P)\<lparr>pending := rest\<rparr>)"
    using assms(1) by (simp add: recv_def)
  have sub: "6 \<le> len \<Longrightarrow> unat (?w - 6) = len - 6"
    using w by (simp add: unat_sub word_le_nat_alt)
  show ?thesis
    using sub w'
    by (simp add: parseBMPv3_def r Let_def field_def host_val_reverseBytes
        parsePeerHdr_bmp_len parsePeerHdr_bmp_type BMP_HDRv3_LEN_def)
qed

theorem parseBMPv3_bmp_len_witness:
  "\<exists>P'. parseBMPv3 example_layout example_host
            (parseBMP example_layout (stream [4, 0, 0, 0, 32])) = (Inr (), P') \<and>
        bmp_type P' = 4 \<and> bmp_len P' = 26 \<and> unat (bmp_len P') = 26"
  using parseBMPv3_bmp_len
    [where P = "parseBMP example_layout (stream [4, 0, 0, 0, 32])" and t = 4 and la = 0
       and lb = 0 and lc = 0 and ld = 32 and rest = "[]" and len = 32
       and L = example_layout and H = example_host]
  by (simp add: parseBMP_def stream_def BMP_HDRv3_LEN_def)

subsection \<open>The Initiation decoder\<close>

text \<open>
  A free-form string TLV (type 0) whose length \<open>n\<close> is not zero and not above the
  capacity of \<open>initiate_data\<close>: the value reaches \<open>infoBuf\<close> whole and replaces the first
  \<open>n\<close> bytes of the field. A declared length above the capacity makes line 602 write
  beyond the field.
\<close>

lemma save_init_info_free_form_beyond:
  assumes "length (initiate_data r) < unat tlv_len"
  shows "save_init_info L INIT_TYPE_FREE_FORM_STRING tlv_len (Some a) r lg =
           Inl (WriteBeyond (unat tlv_len) (length (initiate_data r)))"
  using assms by (simp add: save_init_info_def memcpy_field_def)

lemma init_tlv_free_form_fits:
  assumes "buf = pre @ 0 # 0 # l1 # l0 # v @ post"
    and "length pre = i"
    and "unat (be_val [l1, l0] :: u16) = n"
    and "0 < n" and "n \<le> cap" and "length v = n"
    and "length (initiate_data r) = cap"
  shows "read_tlv cap buf i =
           Inr (INIT_TYPE_FREE_FORM_STRING, be_val [l1, l0], Some (zero_filled cap v), i + n)"
    and "save_init_info L INIT_TYPE_FREE_FORM_STRING (be_val [l1, l0])
             (Some (zero_filled cap v)) r lg =
           Inr (r\<lparr>initiate_data := v @ drop n (initiate_data r)\<rparr>, lg)"
proof -
  have f1: "field i 2 buf = [0, 0]"
    using assms(2) by (simp add: assms(1) field_def)
  have f2: "field (i + 2) 2 buf = [l1, l0]"
    using assms(2) by (simp add: assms(1) field_def)
  have f3: "field (i + 4) n buf = v"
    using assms(2,6) by (simp add: assms(1) field_def)
  have pos: "0 < (be_val [l1, l0] :: u16)"
    using assms(3,4) by (simp add: word_less_nat_alt)
  have t: "(be_val [0, 0] :: u16) = INIT_TYPE_FREE_FORM_STRING"
    by (simp add: be_val_def INIT_TYPE_FREE_FORM_STRING_def)
  have enough: "\<not> length buf < i + 4 + n" "\<not> length buf < i + 4"
    using assms(2,6) by (simp_all add: assms(1))
  have fits: "\<not> cap < n"
    using assms(5) by simp
  show "read_tlv cap buf i =
           Inr (INIT_TYPE_FREE_FORM_STRING, be_val [l1, l0], Some (zero_filled cap v), i + n)"
    unfolding read_tlv_def Let_def f1 f2 host_val_reverseBytes assms(3)
    using pos enough fits by (simp only: if_True if_False f3 t)
  show "save_init_info L INIT_TYPE_FREE_FORM_STRING (be_val [l1, l0])
             (Some (zero_filled cap v)) r lg =
           Inr (r\<lparr>initiate_data := v @ drop n (initiate_data r)\<rparr>, lg)"
    using assms(4,5,6,7)
    by (simp add: save_init_info_def memcpy_field_def assms(3) zero_filled_def)
qed

text \<open>
  Claim C1, at an input where the code departs from it. The message holds one TLV of
  type 0 whose declared length 4097 is one more than the 4096 bytes of
  \<open>initiate_data\<close>. The value has been cut to 4096 bytes on its way into \<open>infoBuf\<close>, but
  line 602 copies \<open>initMsg.len\<close> bytes, not \<open>infoLen\<close>: 4097 bytes are written to a field
  of 4096.
\<close>

theorem handleInitMsg_free_form_writes_beyond:
  "fst (handleInitMsg example_layout
          ((parseBMP example_layout (stream ([0, 0, 0x10, 0x01] @ replicate 4097 0x41)))
             \<lparr>bmp_len := 4101\<rparr>)
          (zeroed_router example_layout) []) =
     Inl (Undefined (WriteBeyond 4097 (sz_initiate_data example_layout)))"
  by (simp add: handleInitMsg_def parseBMP_def stream_def recv_def init_loop.simps
      read_tlv_def example_layout_def zeroed_router_def field_def host_val_def
      reverseBytes_def be_val_def save_init_info_def INIT_TYPE_FREE_FORM_STRING_def
      memcpy_field_def zero_filled_def)

subsection \<open>The version byte\<close>

text \<open>
  Claim C9. \<open>handleMessage\<close> reads one byte. With no byte left it throws, and the
  message tells an orderly close ("(2) Connection closed") from a failed read ("(1)
  Failed to read from socket."); the state is unchanged. With a version byte \<open>ver\<close> in
  front of the stream, exactly that byte is taken: version 3 continues with
  \<open>parseBMPv3\<close> and versions 1 and 2 with \<open>parseBMPv2\<close> on the rest of the stream, and
  the value returned is the \<open>bmp_type\<close> they leave; any other version throws the
  unsupported-version error and no further byte is consumed.
\<close>

theorem handleMessage_version_dispatch:
  "(pending (sock P) = [] \<and> at_end (sock P) = Closed \<longrightarrow>
      handleMessage L H P = (Inl (Throw ''(2) Connection closed''), P)) \<and>
   (pending (sock P) = [] \<and> at_end (sock P) = IOError \<longrightarrow>
      handleMessage L H P = (Inl (Throw ''(1) Failed to read from socket.''), P)) \<and>
   (\<forall>ver rest. pending (sock P) = ver # rest \<longrightarrow>
      (let P0 = P\<lparr>sock := (sock P)\<lparr>pending := rest\<rparr>\<rparr> in
       (ver = 3 \<longrightarrow>
          handleMessage L H P =
            (case parseBMPv3 L H P0 of
               (Inl e, P1) \<Rightarrow> (Inl e, P1)
             | (Inr u, P1) \<Rightarrow> (Inr (bmp_type P1), P1))) \<and>
       (ver = 1 \<or> ver = 2 \<longrightarrow>
          handleMessage L H P =
            (case parseBMPv2 L H P0 of
               (Inl e, P1) \<Rightarrow> (Inl e, P1)
             | (Inr u, P1) \<Rightarrow> (Inr (bmp_type P1), P1))) \<and>
       (ver \<noteq> 1 \<and> ver \<noteq> 2 \<and> ver \<noteq> 3 \<longrightarrow>
          handleMessage L H P =
            (Inl (Throw ''ERROR: Unsupported BMP message version''), P0))))"
proof (intro conjI impI allI)
  assume "pending (sock P) = [] \<and> at_end (sock P) = Closed"
  then have "recv (sock P) 1 = (0, [], sock P)"
    using recv_nothing [of "sock P" 1] by simp
  then show "handleMessage L H P = (Inl (Throw ''(2) Connection closed''), P)"
    by (simp add: handleMessage_def)
next
  assume "pending (sock P) = [] \<and> at_end (sock P) = IOError"
  then have "recv (sock P) 1 = (- 1, [], sock P)"
    using recv_nothing [of "sock P" 1] by simp
  then show "handleMessage L H P = (Inl (Throw ''(1) Failed to read from socket.''), P)"
    by (simp add: handleMessage_def)
next
  fix ver rest
  assume "pending (sock P) = ver # rest"
  then have r: "recv (sock P) 1 = (1, [ver], (sock P)\<lparr>pending := rest\<rparr>)"
    by (rule recv_byte)
  show "let P0 = P\<lparr>sock := (sock P)\<lparr>pending := rest\<rparr>\<rparr> in
       (ver = 3 \<longrightarrow>
          handleMessage L H P =
            (case parseBMPv3 L H P0 of
               (Inl e, P1) \<Rightarrow> (Inl e, P1)
             | (Inr u, P1) \<Rightarrow> (Inr (bmp_type P1), P1))) \<and>
       (ver = 1 \<or> ver = 2 \<longrightarrow>
          handleMessage L H P =
            (case parseBMPv2 L H P0 of
               (Inl e, P1) \<Rightarrow> (Inl e, P1)
             | (Inr u, P1) \<Rightarrow> (Inr (bmp_type P1), P1))) \<and>
       (ver \<noteq> 1 \<and> ver \<noteq> 2 \<and> ver \<noteq> 3 \<longrightarrow>
          handleMessage L H P =
            (Inl (Throw ''ERROR: Unsupported BMP message version''), P0))"
    unfolding handleMessage_def r Let_def by simp
qed

theorem handleMessage_version_dispatch_witness:
  "handleMessage example_layout example_host (parseBMP example_layout (stream [])) =
     (Inl (Throw ''(2) Connection closed''), parseBMP example_layout (stream [])) \<and>
   handleMessage example_layout example_host
     (parseBMP example_layout \<lparr>pending = [], at_end = IOError\<rparr>) =
     (Inl (Throw ''(1) Failed to read from socket.''),
      parseBMP example_layout \<lparr>pending = [], at_end = IOError\<rparr>) \<and>
   handleMessage example_layout example_host (parseBMP example_layout (stream [7, 0, 0])) =
     (Inl (Throw ''ERROR: Unsupported BMP message version''),
      parseBMP example_layout (stream [0, 0])) \<and>
   fst (handleMessage example_layout example_host
          (parseBMP example_layout (stream [3, 4, 0, 0, 0, 32]))) = Inr 4 \<and>
   fst (handleMessage example_layout example_host
          (parseBMP example_layout (stream [2, 0, 0]))) =
     Inl (Throw ''ERROR: Cannot read v1/v2 BMP common header.'')"
  using
    handleMessage_version_dispatch
      [where P = "parseBMP example_layout (stream [])" and L = example_layout
         and H = example_host]
    handleMessage_version_dispatch
      [where P = "parseBMP example_layout \<lparr>pending = [], at_end = IOError\<rparr>"
         and L = example_layout and H = example_host]
    handleMessage_version_dispatch
      [where P = "parseBMP example_layout (stream [7, 0, 0])" and L = example_layout
         and H = example_host]
    handleMessage_version_dispatch
      [where P = "parseBMP example_layout (stream [3, 4, 0, 0, 0, 32])"
         and L = example_layout and H = example_host]
    handleMessage_version_dispatch
      [where P = "parseBMP example_layout (stream [2, 0, 0])" and L = example_layout
         and H = example_host]
  by (simp add: parseBMP_def stream_def parseBMPv3_def parseBMPv2_def recv_def Let_def
      BMP_HDRv3_LEN_def BMP_HDRv1v2_LEN_def TYPE_ROUTE_MON_def TYPE_STATS_REPORT_def
      TYPE_PEER_UP_def TYPE_PEER_DOWN_def)

subsection \<open>The peer-up event header\<close>

lemma parsePeerUpEventHdr_timestamp:
  "up_timestamp_secs (fst (snd (parsePeerUpEventHdr L H P up_event))) =
     timestamp_secs (p_entry P)"
  by (simp add: parsePeerUpEventHdr_def recv_port_def Let_def split_def)

lemma parsePeerUpEventHdr_hash_id:
  "up_peer_hash_id (fst (snd (parsePeerUpEventHdr L H P up_event))) = hash_id (p_entry P)"
  by (simp add: parsePeerUpEventHdr_def recv_port_def Let_def split_def)


lemma parsePeerUpEventHdr_complete:
  assumes "20 \<le> length (pending (sock P))"
  shows "fst (parsePeerUpEventHdr L H P up_event) = Inr True"
proof -
  let ?s1 = "(sock P)\<lparr>pending := drop 16 (pending (sock P))\<rparr>"
  let ?s2 = "(sock P)\<lparr>pending := drop 18 (pending (sock P))\<rparr>"
  have r1: "recv (sock P) 16 = (16, take 16 (pending (sock P)), ?s1)"
    using assms by (auto simp: recv_def)
  have r2: "recv ?s1 2 = (2, take 2 (drop 16 (pending (sock P))), ?s2)"
    using assms recv_after_drop [where k = 16 and n = 2 and s = "sock P"] by simp
  have r3: "recv ?s2 2 = (2, take 2 (drop 18 (pending (sock P))),
      (sock P)\<lparr>pending := drop 20 (pending (sock P))\<rparr>)"
    using assms recv_after_drop [where k = 18 and n = 2 and s = "sock P"] by simp
  show ?thesis
    by (simp add: parsePeerUpEventHdr_def recv_port_def r1 r2 r3 Let_def)
qed

lemma parsePeerUpEventHdr_short:
  assumes "length (pending (sock P)) < 20"
  shows "fst (parsePeerUpEventHdr L H P up_event) \<noteq> Inr True"
proof -
  consider "length (pending (sock P)) < 16"
    | "16 \<le> length (pending (sock P))" "length (pending (sock P)) < 18"
    | "18 \<le> length (pending (sock P))" "length (pending (sock P)) < 20"
    using assms by linarith
  then show ?thesis
  proof cases
    case 1
    then have "fst (recv (sock P) 16) \<noteq> 16"
      using recv_short [of "sock P" 16] by simp
    then show ?thesis
      by (simp add: parsePeerUpEventHdr_def recv_port_def Let_def split_def)
  next
    case 2
    let ?s1 = "(sock P)\<lparr>pending := drop 16 (pending (sock P))\<rparr>"
    have r1: "recv (sock P) 16 = (16, take 16 (pending (sock P)), ?s1)"
      using 2 by (auto simp: recv_def)
    have "fst (recv ?s1 2) \<noteq> 2"
      using 2 recv_short [of ?s1 2] by simp
    then show ?thesis
      by (simp add: parsePeerUpEventHdr_def recv_port_def r1 Let_def split_def)
  next
    case 3
    let ?s1 = "(sock P)\<lparr>pending := drop 16 (pending (sock P))\<rparr>"
    let ?s2 = "(sock P)\<lparr>pending := drop 18 (pending (sock P))\<rparr>"
    have r1: "recv (sock P) 16 = (16, take 16 (pending (sock P)), ?s1)"
      using 3 by (auto simp: recv_def)
    have r2: "recv ?s1 2 = (2, take 2 (drop 16 (pending (sock P))), ?s2)"
      using 3 recv_after_drop [where k = 16 and n = 2 and s = "sock P"] by simp
    have "fst (recv ?s2 2) \<noteq> 2"
      using 3 recv_short [of ?s2 2] by simp
    then show ?thesis
      by (simp add: parsePeerUpEventHdr_def recv_port_def r1 r2 Let_def split_def)
  qed
qed

text \<open>
  Claim C10. Whatever \<open>parsePeerUpEventHdr\<close> returns, the event structure it leaves
  has \<open>timestamp_secs\<close> and \<open>peer_hash_id\<close> of the current peer record: they are
  written before the first \<open>recv\<close>. The function returns false only after a short read
  (fewer than the 20 bytes of local address and two ports are left), and after a short
  read it never returns true; so a false return comes with a modified event structure.
\<close>

theorem parsePeerUpEventHdr_writes_first:
  assumes "parsePeerUpEventHdr L H P up_event = (res, up', P')"
  shows "up_timestamp_secs up' = timestamp_secs (p_entry P) \<and>
         up_peer_hash_id up' = hash_id (p_entry P) \<and>
         (res = Inr False \<longrightarrow> length (pending (sock P)) < 20) \<and>
         (length (pending (sock P)) < 20 \<longrightarrow> res \<noteq> Inr True)"
proof -
  have res: "res = fst (parsePeerUpEventHdr L H P up_event)"
    and up': "up' = fst (snd (parsePeerUpEventHdr L H P up_event))"
    by (simp_all add: assms)
  have "res = Inr False \<Longrightarrow> length (pending (sock P)) < 20"
    using parsePeerUpEventHdr_complete [of P L H up_event] res
    by (cases "20 \<le> length (pending (sock P))") simp_all
  then show ?thesis
    using parsePeerUpEventHdr_short [of P L H up_event]
    by (simp add: res up' parsePeerUpEventHdr_timestamp parsePeerUpEventHdr_hash_id)
qed

theorem parsePeerUpEventHdr_writes_first_witness:
  "\<exists>up' P'.
     parsePeerUpEventHdr example_layout example_host
       ((parseBMP example_layout (stream [0, 0, 0]))
          \<lparr>bmp_len := 62,
           p_entry := \<lparr>hash_id = replicate 16 7, p_peer_addr = [], p_peer_as = 0,
                       p_peer_bgp_id = [], p_peer_rd = [], isIPv4 = True,
                       isPrePolicy = True, isL3VPN = False,
                       timestamp_secs = 1400000000\<rparr>\<rparr>)
       (zeroed_up_event example_layout) = (Inr False, up', P') \<and>
     up_timestamp_secs up' = 1400000000 \<and> up_peer_hash_id up' = replicate 16 7 \<and>
     up' \<noteq> zeroed_up_event example_layout"
proof -
  let ?P = "(parseBMP example_layout (stream [0, 0, 0]))
          \<lparr>bmp_len := 62,
           p_entry := \<lparr>hash_id = replicate 16 7, p_peer_addr = [], p_peer_as = 0,
                       p_peer_bgp_id = [], p_peer_rd = [], isIPv4 = True,
                       isPrePolicy = True, isL3VPN = False,
                       timestamp_secs = 1400000000\<rparr>\<rparr>"
  obtain res up' P' where
    run: "parsePeerUpEventHdr example_layout example_host ?P (zeroed_up_event example_layout)
            = (res, up', P')"
    by (rule prod_cases3)
  have "fst (parsePeerUpEventHdr example_layout example_host ?P
               (zeroed_up_event example_layout)) = Inr False"
    by (simp add: parsePeerUpEventHdr_def parseBMP_def stream_def recv_def Let_def
        BMP_PEER_HDR_LEN_def log_msg_def)
  then have "res = Inr False"
    by (simp add: run)
  moreover have "up_timestamp_secs up' = 1400000000 \<and> up_peer_hash_id up' = replicate 16 7"
    using parsePeerUpEventHdr_writes_first [OF run] by simp
  moreover from this have "up' \<noteq> zeroed_up_event example_layout"
    by (auto simp: zeroed_up_event_def)
  ultimately show ?thesis
    using run by blast
qed

subsection \<open>The stats report\<close>

text \<open>
  What the loop does with one stats object when its bytes are on the socket: a length
  of 4 stores the reversed value through the switch on the type (an unknown type
  leaves the record as it is, see \<open>store_counter\<close>); a length of 8 overruns \<open>b\<close>; any
  other length, 0 included, skips that many bytes and leaves the record as it is.
\<close>

lemma unat_be_val2:
  "unat (be_val [a, b] :: u16) = 2 ^ 8 * unat a + unat b"
proof -
  let ?n = "2 ^ 8 * unat a + unat b"
  have "unat a < 256" "unat b < 256"
    by (rule unat_u8_bound)+
  then have less: "?n < 2 ^ 16"
    by simp
  have "foldl (\<lambda>acc b. 256 * acc + unat b) 0 [a, b] = ?n"
    by simp
  then have "unat (be_val [a, b] :: u16) = ?n mod 2 ^ 16"
    by (simp only: be_val_def unat_of_nat) simp
  with less show ?thesis
    by simp
qed

lemma skip_bytes_enough:
  "n \<le> length (pending s) \<Longrightarrow> skip_bytes n s = s\<lparr>pending := drop n (pending s)\<rparr>"
proof (induction n arbitrary: s)
  case 0
  then show ?case by simp
next
  case (Suc n)
  then obtain b rest where p: "pending s = b # rest"
    by (cases "pending s") simp_all
  with Suc.prems have "n \<le> length (pending (s\<lparr>pending := rest\<rparr>))"
    by simp
  moreover have "recv s (Suc 0) = (1, [b], s\<lparr>pending := rest\<rparr>)"
    using recv_byte [OF p] by simp
  ultimately show ?case
    using Suc.IH [of "s\<lparr>pending := rest\<rparr>"] by (simp add: p)
qed

lemma stats_object_len4:
  assumes "pending s = [t1, t0, 0, 4, v3, v2, v1, v0] @ rest"
  shows "stats_object s stats =
           (Inr (store_counter (be_val [t1, t0]) [v0, v1, v2, v3] stats),
            s\<lparr>pending := rest\<rparr>)"
proof -
  have r1: "recv s 2 = (2, [t1, t0], s\<lparr>pending := 0 # 4 # v3 # v2 # v1 # v0 # rest\<rparr>)"
    using assms by (simp add: recv_def)
  have r2: "recv (s\<lparr>pending := 0 # 4 # v3 # v2 # v1 # v0 # rest\<rparr>) 2 =
      (2, [0, 4], s\<lparr>pending := v3 # v2 # v1 # v0 # rest\<rparr>)"
    by (simp add: recv_def)
  have len: "(be_val [0, 4] :: u16) = 4"
    by (simp add: be_val_def)
  have r3: "recv (s\<lparr>pending := v3 # v2 # v1 # v0 # rest\<rparr>) 4 =
      (4, [v3, v2, v1, v0], s\<lparr>pending := rest\<rparr>)"
    by (simp add: recv_def)
  show ?thesis
    by (simp add: stats_object_def r1 r2 host_val_reverseBytes len r3 Let_def)
      (simp add: reverseBytes_def)
qed

lemma stats_object_len8:
  assumes "pending s = [t1, t0, 0, 8] @ v @ rest" and "length v = 8"
  shows "stats_object s stats = (Inl (Undefined (WriteBeyond 8 4)), s\<lparr>pending := rest\<rparr>)"
proof -
  have r1: "recv s 2 = (2, [t1, t0], s\<lparr>pending := 0 # 8 # v @ rest\<rparr>)"
    using assms by (simp add: recv_def)
  have r2: "recv (s\<lparr>pending := 0 # 8 # v @ rest\<rparr>) 2 =
      (2, [0, 8], s\<lparr>pending := v @ rest\<rparr>)"
    by (simp add: recv_def)
  have len: "(be_val [0, 8] :: u16) = 8"
    by (simp add: be_val_def)
  have r3: "recv (s\<lparr>pending := v @ rest\<rparr>) 8 = (8, v, s\<lparr>pending := rest\<rparr>)"
    using assms(2) by (auto simp: recv_def)
  show ?thesis
    using assms(2) by (simp add: stats_object_def r1 r2 host_val_reverseBytes len r3 Let_def)
qed

lemma stats_object_other_length:
  assumes "pending s = [t1, t0, l1, l0] @ rest"
    and "n = 2 ^ 8 * unat l1 + unat l0"
    and "n \<noteq> 4" and "n \<noteq> 8" and "n \<le> length rest"
  shows "stats_object s stats = (Inr stats, s\<lparr>pending := drop n rest\<rparr>)"
proof -
  let ?len = "be_val [l1, l0] :: u16"
  have n: "unat ?len = n"
    using assms(2) by (simp add: unat_be_val2)
  have r1: "recv s 2 = (2, [t1, t0], s\<lparr>pending := l1 # l0 # rest\<rparr>)"
    using assms(1) by (simp add: recv_def)
  have r2: "recv (s\<lparr>pending := l1 # l0 # rest\<rparr>) 2 = (2, [l1, l0], s\<lparr>pending := rest\<rparr>)"
    by (simp add: recv_def)
  have "?len \<noteq> 4" "?len \<noteq> 8"
    using n assms(3,4) by auto
  moreover have "skip_bytes n (s\<lparr>pending := rest\<rparr>) = s\<lparr>pending := drop n rest\<rparr>"
    using assms(5) skip_bytes_enough [of n "s\<lparr>pending := rest\<rparr>"] by simp
  ultimately show ?thesis
    by (simp add: stats_object_def r1 r2 host_val_reverseBytes n Let_def)
qed

text \<open>
  Claim C6, at an input where the code departs from it. The report holds one stats
  object of type 7 (routes in Adj-RIB-In) and length 8 with the value 42. The length
  passes the test \<open>stat_len == 4 or stat_len == 8\<close>, and \<open>recv\<close> then stores the eight
  value bytes in \<open>unsigned char b[4]\<close>: four of them are written beyond the array, and
  no counter is set by defined behaviour.
\<close>

theorem handleStatsReport_len8_writes_beyond:
  "fst (handleStatsReport
          (parseBMP example_layout
             (stream [0, 0, 0, 1, 0, 7, 0, 8, 0, 0, 0, 0, 0, 0, 0, 0x2a])) []) =
     Inl (Undefined (WriteBeyond 8 4))"
  by code_simp

subsection \<open>The peer header: facts about its fields\<close>

lemma or_low_byte_nat:
  fixes m k :: nat
  assumes "k < 256"
  shows "push_bit 8 m OR k = 256 * m + k"
proof -
  have k: "take_bit 8 k = k"
    using assms by (simp add: take_bit_nat_eq_self)
  have "\<not> bit (push_bit 8 m) n \<or> \<not> bit (take_bit 8 k) n" for n
    by (auto simp: bit_push_bit_iff bit_take_bit_iff)
  then have "push_bit 8 m + take_bit 8 k = push_bit 8 m OR take_bit 8 k"
    by (rule disjunctive_add)
  then show ?thesis
    by (simp add: k push_bit_eq_mult)
qed

lemma unat_shift_or:
  "unat (push_bit 8 (promote a) OR promote b) = 256 * unat a + unat b"
proof -
  have a: "unat a < 256" and b: "unat b < 256"
    by (rule unat_u8_bound)+
  have ua: "unat (ucast a :: u32) = unat a"
    using a by (simp add: unsigned_ucast_eq take_bit_nat_eq_self)
  have ub: "unat (ucast b :: u32) = unat b"
    using b by (simp add: unsigned_ucast_eq take_bit_nat_eq_self)
  have "push_bit 8 (unat a) < 2 ^ 32"
    using a by (simp add: push_bit_eq_mult)
  then have "unat (push_bit 8 (ucast a :: u32)) = push_bit 8 (unat a)"
    by (simp add: unsigned_push_bit_eq ua take_bit_nat_eq_self)
  then have "unat (push_bit 8 (ucast a :: u32) OR ucast b) = push_bit 8 (unat a) OR unat b"
    by (simp add: unsigned_or_eq ub)
  then show ?thesis
    using b by (simp add: promote_def or_low_byte_nat)
qed

lemma dec_digit: "n < 10 \<Longrightarrow> dec n = [digit_char n]"
  by (simp add: dec.simps)

lemma dec_more: "10 \<le> n \<Longrightarrow> dec n = dec (n div 10) @ [digit_char (n mod 10)]"
  by (subst dec.simps) simp

lemma hex_digit: "n < 16 \<Longrightarrow> hex n = [digit_char n]"
  by (simp add: hex.simps)

lemma hex_more: "16 \<le> n \<Longrightarrow> hex n = hex (n div 16) @ [digit_char (n mod 16)]"
  by (subst hex.simps) simp

lemma hex_digit_val_digit_char:
  assumes "q < 16"
  shows "hex_digit_val (digit_char q) = Some q"
proof -
  have "q = 0 \<or> q = 1 \<or> q = 2 \<or> q = 3 \<or> q = 4 \<or> q = 5 \<or> q = 6 \<or> q = 7 \<or> q = 8
           \<or> q = 9 \<or> q = 10 \<or> q = 11 \<or> q = 12 \<or> q = 13 \<or> q = 14 \<or> q = 15"
    using assms by arith
  then show ?thesis
    by (auto simp: digit_char_def hex_digit_val_def)
qed

lemma digit_char_0: "digit_char 0 = CHR ''0''"
  by (simp add: digit_char_def)

lemma replicate_small:
  "replicate 3 c = [c, c, c]" "replicate 2 c = [c, c]"
  by (simp_all add: numeral_3_eq_3 numeral_2_eq_2)

lemma fmt_04x_digits:
  assumes "unat x < 65536"
  shows "fmt_04x x =
           [digit_char (unat x div 16 div 16 div 16), digit_char (unat x div 16 div 16 mod 16),
            digit_char (unat x div 16 mod 16), digit_char (unat x mod 16)]"
proof -
  let ?n = "unat x"
  consider "?n < 16" | "16 \<le> ?n" "?n < 256" | "256 \<le> ?n" "?n < 4096" | "4096 \<le> ?n"
    by linarith
  then show ?thesis
  proof cases
    case 1
    then show ?thesis
      by (simp add: fmt_04x_def hex_digit digit_char_0 replicate_small)
  next
    case 2
    then have "?n div 16 < 16"
      by simp
    with 2 show ?thesis
      by (simp add: fmt_04x_def hex_digit hex_more digit_char_0 replicate_small)
  next
    case 3
    then have "16 \<le> ?n div 16" "?n div 16 div 16 < 16"
      by simp_all
    with 3 show ?thesis
      by (simp add: fmt_04x_def hex_digit hex_more digit_char_0 replicate_small)
  next
    case 4
    then have "16 \<le> ?n div 16" "16 \<le> ?n div 16 div 16" "?n div 16 div 16 div 16 < 16"
      using assms by simp_all
    with 4 show ?thesis
      by (simp add: fmt_04x_def hex_digit hex_more)
  qed
qed

lemma hex_digits_val_fmt_04x:
  assumes "unat x < 65536"
  shows "hex_digits_val acc (fmt_04x x @ rest) = hex_digits_val (65536 * acc + unat x) rest"
proof -
  let ?n = "unat x"
  have d: "?n div 16 div 16 div 16 < 16"
    using assms by simp
  have "16 * (16 * (16 * (?n div 16 div 16 div 16) + ?n div 16 div 16 mod 16)
          + ?n div 16 mod 16) + ?n mod 16 = ?n"
    by simp
  then have "16 * (16 * (16 * (16 * acc + ?n div 16 div 16 div 16) + ?n div 16 div 16 mod 16)
          + ?n div 16 mod 16) + ?n mod 16 = 65536 * acc + ?n"
    by (simp add: algebra_simps)
  then show ?thesis
    using d by (simp add: fmt_04x_digits [OF assms] hex_digit_val_digit_char add.commute)
qed

lemma strtoll16_unsigned:
  assumes "s = CHR ''0'' # cs" and "hex_digits_val 0 (skip_0x s) = v" and "v < 2 ^ 32"
  shows "strtoll16 s = of_nat v"
proof -
  have "min (2 ^ 63 - 1) (int v) = int v"
    using assms(3) by simp
  then show ?thesis
    by (simp add: strtoll16_def is_space_def assms(1) assms(2) [unfolded assms(1)] Let_def)
qed

lemma strtoll16_peer_as_text:
  assumes "11 \<le> sz"
  shows "unat (strtoll16 (snprintf sz (peer_as_text [a, b, c, d]))) =
           2 ^ 24 * unat a + 2 ^ 16 * unat b + 2 ^ 8 * unat c + unat d"
proof -
  let ?hi = "push_bit 8 (promote a) OR promote b"
  let ?lo = "push_bit 8 (promote c) OR promote d"
  let ?v = "65536 * unat ?hi + unat ?lo"
  have hi: "unat ?hi = 256 * unat a + unat b" and lo: "unat ?lo = 256 * unat c + unat d"
    by (rule unat_shift_or)+
  have bounds: "unat a < 256" "unat b < 256" "unat c < 256" "unat d < 256"
    by (rule unat_u8_bound)+
  then have hi_less: "unat ?hi < 65536" and lo_less: "unat ?lo < 65536"
    by (simp_all add: hi lo)
  have len: "length (fmt_04x ?hi) = 4" "length (fmt_04x ?lo) = 4"
    by (simp_all add: fmt_04x_digits hi_less lo_less)
  have text_eq: "snprintf sz (peer_as_text [a, b, c, d]) = ''0x'' @ fmt_04x ?hi @ fmt_04x ?lo"
    using assms by (simp add: snprintf_def peer_as_text_def len)
  have "unat ?hi div 16 div 16 div 16 < 16"
    using hi_less by simp
  then obtain h0 hs where h: "fmt_04x ?hi = h0 # hs" "hex_digit_val h0 \<noteq> None"
    by (simp add: fmt_04x_digits hi_less hex_digit_val_digit_char)
  have skip: "skip_0x (''0x'' @ fmt_04x ?hi @ fmt_04x ?lo) = fmt_04x ?hi @ fmt_04x ?lo"
    by (simp add: skip_0x_def h)
  have digits: "hex_digits_val 0 (fmt_04x ?hi @ fmt_04x ?lo) = ?v"
    using hex_digits_val_fmt_04x [OF hi_less, of 0 "fmt_04x ?lo"]
      hex_digits_val_fmt_04x [OF lo_less, of "unat ?hi" "[]"]
    by simp
  have v_less: "?v < 2 ^ 32"
    using bounds by (simp add: hi lo)
  have "strtoll16 (''0x'' @ fmt_04x ?hi @ fmt_04x ?lo) = of_nat ?v"
    by (rule strtoll16_unsigned [where cs = "CHR ''x'' # fmt_04x ?hi @ fmt_04x ?lo"])
      (simp_all only: skip digits v_less, simp)
  then have "unat (strtoll16 (snprintf sz (peer_as_text [a, b, c, d]))) = ?v mod 2 ^ 64"
    by (simp only: text_eq unat_of_nat) simp
  with v_less show ?thesis
    by (simp add: hi lo)
qed

lemma field_take: "off + n \<le> m \<Longrightarrow> field off n (take m ys) = field off n ys"
  by (simp add: field_def drop_take min_def)

lemma field_append:
  "length pre = off \<Longrightarrow> length xs = n \<Longrightarrow> field off n (pre @ xs @ post) = xs"
  by (simp add: field_def)

lemma field_append4:
  "length pre = off \<Longrightarrow> field off 4 (pre @ a # b # c # d # post) = [a, b, c, d]"
  by (simp add: field_def)

lemma parsePeerHdr_fields:
  assumes "recv (sock P) BMP_PEER_HDR_LEN = (i, got, s)"
    and "p_hdr = zero_filled BMP_PEER_HDR_LEN got"
  shows "p_peer_as (p_entry (parsePeerHdr L H P)) =
           strtoll16 (snprintf (sz_peer_as L) (peer_as_text (field 26 4 p_hdr)))"
    and "p_peer_rd (p_entry (parsePeerHdr L H P)) =
           snprintf (sz_peer_rd L) (peer_rd_text (field 2 8 p_hdr))"
    and "timestamp_secs (p_entry (parsePeerHdr L H P)) =
           advertised_timestamp H (field 34 4 p_hdr)"
    and "isL3VPN (p_entry (parsePeerHdr L H P)) = (p_hdr ! 0 = 1)"
    and "isIPv4 (p_entry (parsePeerHdr L H P)) = (p_hdr ! 1 AND 0x80 = 0)"
    and "p_hdr ! 1 AND 0x80 = 0 \<Longrightarrow>
           p_peer_addr (p_entry (parsePeerHdr L H P)) =
             snprintf (sz_peer_addr L)
               (dotted_quad (field 10 16 p_hdr ! 12) (field 10 16 p_hdr ! 13)
                  (field 10 16 p_hdr ! 14) (field 10 16 p_hdr ! 15))"
    and "sock (parsePeerHdr L H P) = s"
    and "logs (parsePeerHdr L H P) =
           (if i \<noteq> int BMP_PEER_HDR_LEN
            then logs P @ [(ERR, ''sock=%d: Couldn't read all bytes, read %d bytes'')]
            else logs P)"
  using assms by (simp_all add: parsePeerHdr_def Let_def log_msg_def)

lemma parsePeerHdr_complete:
  assumes "BMP_PEER_HDR_LEN \<le> length (pending (sock P))"
  shows "p_peer_as (p_entry (parsePeerHdr L H P)) =
           strtoll16 (snprintf (sz_peer_as L) (peer_as_text (field 26 4 (pending (sock P)))))"
    and "p_peer_rd (p_entry (parsePeerHdr L H P)) =
           snprintf (sz_peer_rd L) (peer_rd_text (field 2 8 (pending (sock P))))"
    and "timestamp_secs (p_entry (parsePeerHdr L H P)) =
           advertised_timestamp H (field 34 4 (pending (sock P)))"
proof -
  let ?got = "take BMP_PEER_HDR_LEN (pending (sock P))"
  have r: "recv (sock P) BMP_PEER_HDR_LEN =
      (int BMP_PEER_HDR_LEN, ?got,
       (sock P)\<lparr>pending := drop BMP_PEER_HDR_LEN (pending (sock P))\<rparr>)"
    by (rule recv_enough)
      (use assms in \<open>simp_all add: BMP_PEER_HDR_LEN_def BMP_HDRv1v2_LEN_def\<close>)
  have z: "?got = zero_filled BMP_PEER_HDR_LEN ?got"
    using assms by (simp add: zero_filled_def)
  note f = parsePeerHdr_fields [OF r z]
  show "p_peer_as (p_entry (parsePeerHdr L H P)) =
           strtoll16 (snprintf (sz_peer_as L) (peer_as_text (field 26 4 (pending (sock P)))))"
    by (simp add: f(1) field_take BMP_PEER_HDR_LEN_def)
  show "p_peer_rd (p_entry (parsePeerHdr L H P)) =
           snprintf (sz_peer_rd L) (peer_rd_text (field 2 8 (pending (sock P))))"
    by (simp add: f(2) field_take BMP_PEER_HDR_LEN_def)
  show "timestamp_secs (p_entry (parsePeerHdr L H P)) =
           advertised_timestamp H (field 34 4 (pending (sock P)))"
    by (simp add: f(3) field_take BMP_PEER_HDR_LEN_def)
qed

lemma parseBMPv2_complete:
  assumes "BMP_HDRv1v2_LEN \<le> length (pending (sock P))"
  shows "fst (parseBMPv2 L H P) = Inr ()"
    and "p_peer_as (p_entry (snd (parseBMPv2 L H P))) =
           strtoll16 (snprintf (sz_peer_as L) (peer_as_text (field 27 4 (pending (sock P)))))"
    and "p_peer_rd (p_entry (snd (parseBMPv2 L H P))) =
           snprintf (sz_peer_rd L) (peer_rd_text (field 3 8 (pending (sock P))))"
    and "timestamp_secs (p_entry (snd (parseBMPv2 L H P))) =
           advertised_timestamp H (field 35 4 (pending (sock P)))"
proof -
  have r: "recv (sock P) BMP_HDRv1v2_LEN =
      (int BMP_HDRv1v2_LEN, take BMP_HDRv1v2_LEN (pending (sock P)),
       (sock P)\<lparr>pending := drop BMP_HDRv1v2_LEN (pending (sock P))\<rparr>)"
    by (rule recv_enough)
      (use assms in \<open>simp_all add: BMP_PEER_HDR_LEN_def BMP_HDRv1v2_LEN_def\<close>)
  show "fst (parseBMPv2 L H P) = Inr ()"
    by (simp add: parseBMPv2_def r Let_def)
  show "p_peer_as (p_entry (snd (parseBMPv2 L H P))) =
           strtoll16 (snprintf (sz_peer_as L) (peer_as_text (field 27 4 (pending (sock P)))))"
    by (simp add: parseBMPv2_def r Let_def) (simp add: field_take BMP_HDRv1v2_LEN_def)
  show "p_peer_rd (p_entry (snd (parseBMPv2 L H P))) =
           snprintf (sz_peer_rd L) (peer_rd_text (field 3 8 (pending (sock P))))"
    by (simp add: parseBMPv2_def r Let_def) (simp add: field_take BMP_HDRv1v2_LEN_def)
  show "timestamp_secs (p_entry (snd (parseBMPv2 L H P))) =
           advertised_timestamp H (field 35 4 (pending (sock P)))"
    by (simp add: parseBMPv2_def r Let_def) (simp add: field_take BMP_HDRv1v2_LEN_def)
qed

lemma advertised_timestamp_cases:
  assumes "w = 2 ^ 24 * unat a + 2 ^ 16 * unat b + 2 ^ 8 * unat c + unat d"
  shows "w \<noteq> 0 \<Longrightarrow> unat (advertised_timestamp H [a, b, c, d]) = w"
    and "w = 0 \<Longrightarrow> advertised_timestamp H [a, b, c, d] = time_now H"
proof -
  let ?ts = "be_val [a, b, c, d] :: u32"
  have w: "unat ?ts = w"
    using assms by (simp add: unat_be_val4)
  have zero: "?ts = 0 \<longleftrightarrow> w = 0"
    using w by (metis unat_eq_0)
  have up: "unat (ucast ?ts :: u64) = unat ?ts"
    by (simp add: unsigned_ucast_eq take_bit_nat_eq_self
        order_less_trans [OF unsigned_less [of ?ts, where 'a = nat]])
  show "w \<noteq> 0 \<Longrightarrow> unat (advertised_timestamp H [a, b, c, d]) = w"
    using zero up w by (simp add: advertised_timestamp_def host_val_reverseBytes Let_def)
  show "w = 0 \<Longrightarrow> advertised_timestamp H [a, b, c, d] = time_now H"
    using zero by (simp add: advertised_timestamp_def host_val_reverseBytes Let_def)
qed

subsection \<open>Peer AS\<close>

text \<open>
  Claim C7. Let the four bytes \<open>a b c d\<close> be the peer AS field of a complete header (at
  offset 26 of the v3 peer header, at offset 27 of the v1/v2 common header after the
  version byte), and let the class buffer \<open>peer_as\<close> hold at least the 11 bytes of
  \<open>0x\<close>, eight digits and the terminator. Then the value stored in
  \<open>p_entry->peer_as\<close> after printing with \<open>0x%04x%04x\<close> and reading back with
  \<open>strtoll(..., 16)\<close> is the big-endian number \<open>a b c d\<close>, in both parsers.
\<close>

theorem peer_as_hex_round_trip:
  assumes "pending (sock P) = pre @ [a, b, c, d] @ post"
    and "12 \<le> length post"
    and "11 \<le> sz_peer_as L"
    and "n = 2 ^ 24 * unat a + 2 ^ 16 * unat b + 2 ^ 8 * unat c + unat d"
  shows "(length pre = 26 \<longrightarrow>
            unat (p_peer_as (p_entry (parsePeerHdr L H P))) = n) \<and>
         (length pre = 27 \<longrightarrow>
            fst (parseBMPv2 L H P) = Inr () \<and>
            unat (p_peer_as (p_entry (snd (parseBMPv2 L H P)))) = n)"
proof (intro conjI impI)
  assume pre: "length pre = 26"
  then have "BMP_PEER_HDR_LEN \<le> length (pending (sock P))"
    using assms(1,2) by (simp add: BMP_PEER_HDR_LEN_def)
  moreover have "field 26 4 (pending (sock P)) = [a, b, c, d]"
    using pre by (simp add: assms(1) field_append4)
  ultimately show "unat (p_peer_as (p_entry (parsePeerHdr L H P))) = n"
    by (simp add: parsePeerHdr_complete(1) strtoll16_peer_as_text [OF assms(3)] assms(4))
next
  assume pre: "length pre = 27"
  then have full: "BMP_HDRv1v2_LEN \<le> length (pending (sock P))"
    using assms(1,2) by (simp add: BMP_HDRv1v2_LEN_def)
  then show "fst (parseBMPv2 L H P) = Inr ()"
    by (rule parseBMPv2_complete(1))
  have "field 27 4 (pending (sock P)) = [a, b, c, d]"
    using pre by (simp add: assms(1) field_append4)
  with full show "unat (p_peer_as (p_entry (snd (parseBMPv2 L H P)))) = n"
    by (simp add: parseBMPv2_complete(2) strtoll16_peer_as_text [OF assms(3)] assms(4))
qed

theorem peer_as_hex_round_trip_witness:
  "unat (p_peer_as (p_entry (parsePeerHdr example_layout example_host
           (parseBMP example_layout
              (stream (replicate 26 0 @ [0, 0, 0xfd, 0xe8] @ replicate 12 0)))))) = 65000 \<and>
   fst (parseBMPv2 example_layout example_host
          (parseBMP example_layout
             (stream (replicate 27 0 @ [0xff, 0xff, 0xff, 0xff] @ replicate 12 0)))) = Inr () \<and>
   unat (p_peer_as (p_entry (snd (parseBMPv2 example_layout example_host
           (parseBMP example_layout
              (stream (replicate 27 0 @ [0xff, 0xff, 0xff, 0xff] @ replicate 12 0))))))) =
     4294967295"
  using
    peer_as_hex_round_trip
      [where P = "parseBMP example_layout
                    (stream (replicate 26 0 @ [0, 0, 0xfd, 0xe8] @ replicate 12 0))"
         and pre = "replicate 26 0" and a = 0 and b = 0 and c = "0xfd" and d = "0xe8"
         and post = "replicate 12 0" and L = example_layout and H = example_host
         and n = 65000]
    peer_as_hex_round_trip
      [where P = "parseBMP example_layout
                    (stream (replicate 27 0 @ [0xff, 0xff, 0xff, 0xff] @ replicate 12 0))"
         and pre = "replicate 27 0" and a = "0xff" and b = "0xff" and c = "0xff"
         and d = "0xff" and post = "replicate 12 0" and L = example_layout
         and H = example_host and n = 4294967295]
  by (simp add: parseBMP_def stream_def example_layout_def)

subsection \<open>Timestamp\<close>

text \<open>
  Claim C8. Let the four bytes \<open>a b c d\<close> be the timestamp-seconds field of a complete
  header (offset 34 of the v3 peer header, offset 35 of the v1/v2 common header after
  the version byte) and \<open>w\<close> their big-endian value, which is what the host reads
  after \<open>reverseBytes\<close>. If \<open>w\<close> is not zero, \<open>p_entry->timestamp_secs\<close> is \<open>w\<close>; if
  it is zero, \<open>p_entry->timestamp_secs\<close> is the value of \<open>time(NULL)\<close>.
\<close>

theorem timestamp_wire_or_now:
  assumes "pending (sock P) = pre @ [a, b, c, d] @ post"
    and "4 \<le> length post"
    and "w = 2 ^ 24 * unat a + 2 ^ 16 * unat b + 2 ^ 8 * unat c + unat d"
  shows "(length pre = 34 \<longrightarrow>
            (w \<noteq> 0 \<longrightarrow> unat (timestamp_secs (p_entry (parsePeerHdr L H P))) = w) \<and>
            (w = 0 \<longrightarrow> timestamp_secs (p_entry (parsePeerHdr L H P)) = time_now H)) \<and>
         (length pre = 35 \<longrightarrow>
            fst (parseBMPv2 L H P) = Inr () \<and>
            (w \<noteq> 0 \<longrightarrow> unat (timestamp_secs (p_entry (snd (parseBMPv2 L H P)))) = w) \<and>
            (w = 0 \<longrightarrow> timestamp_secs (p_entry (snd (parseBMPv2 L H P))) = time_now H))"
proof (intro conjI impI)
  assume pre: "length pre = 34"
  then have full: "BMP_PEER_HDR_LEN \<le> length (pending (sock P))"
    using assms(1,2) by (simp add: BMP_PEER_HDR_LEN_def)
  have f: "field 34 4 (pending (sock P)) = [a, b, c, d]"
    using pre by (simp add: assms(1) field_append4)
  show "unat (timestamp_secs (p_entry (parsePeerHdr L H P))) = w" if "w \<noteq> 0"
    using that by (simp add: parsePeerHdr_complete(3) [OF full] f
        advertised_timestamp_cases(1) [OF assms(3)])
  show "timestamp_secs (p_entry (parsePeerHdr L H P)) = time_now H" if "w = 0"
    using that by (simp only: parsePeerHdr_complete(3) [OF full] f
        advertised_timestamp_cases(2) [OF assms(3)])
next
  assume pre: "length pre = 35"
  then have full: "BMP_HDRv1v2_LEN \<le> length (pending (sock P))"
    using assms(1,2) by (simp add: BMP_HDRv1v2_LEN_def)
  have f: "field 35 4 (pending (sock P)) = [a, b, c, d]"
    using pre by (simp add: assms(1) field_append4)
  show "fst (parseBMPv2 L H P) = Inr ()"
    using full by (rule parseBMPv2_complete(1))
  show "unat (timestamp_secs (p_entry (snd (parseBMPv2 L H P)))) = w" if "w \<noteq> 0"
    using that by (simp add: parseBMPv2_complete(4) [OF full] f
        advertised_timestamp_cases(1) [OF assms(3)])
  show "timestamp_secs (p_entry (snd (parseBMPv2 L H P))) = time_now H" if "w = 0"
    using that by (simp only: parseBMPv2_complete(4) [OF full] f
        advertised_timestamp_cases(2) [OF assms(3)])
qed

theorem timestamp_wire_or_now_witness:
  "unat (timestamp_secs (p_entry (parsePeerHdr example_layout example_host
           (parseBMP example_layout
              (stream (replicate 34 0 @ [0x53, 0x72, 0x4e, 0x00] @ replicate 4 0)))))) =
     1400000000 \<and>
   timestamp_secs (p_entry (parsePeerHdr example_layout example_host
           (parseBMP example_layout
              (stream (replicate 34 0 @ [0, 0, 0, 0] @ replicate 4 0))))) = 1700000000 \<and>
   timestamp_secs (p_entry (snd (parseBMPv2 example_layout example_host
           (parseBMP example_layout
              (stream (replicate 35 0 @ [0, 0, 0, 0] @ replicate 4 0)))))) = 1700000000 \<and>
   unat (timestamp_secs (p_entry (snd (parseBMPv2 example_layout example_host
           (parseBMP example_layout
              (stream (replicate 35 0 @ [0, 0, 0, 1] @ replicate 4 0))))))) = 1"
  using
    timestamp_wire_or_now
      [where P = "parseBMP example_layout
                    (stream (replicate 34 0 @ [0x53, 0x72, 0x4e, 0x00] @ replicate 4 0))"
         and pre = "replicate 34 0" and a = "0x53" and b = "0x72" and c = "0x4e" and d = 0
         and post = "replicate 4 0" and L = example_layout and H = example_host
         and w = 1400000000]
    timestamp_wire_or_now
      [where P = "parseBMP example_layout
                    (stream (replicate 34 0 @ [0, 0, 0, 0] @ replicate 4 0))"
         and pre = "replicate 34 0" and a = 0 and b = 0 and c = 0 and d = 0
         and post = "replicate 4 0" and L = example_layout and H = example_host and w = 0]
    timestamp_wire_or_now
      [where P = "parseBMP example_layout
                    (stream (replicate 35 0 @ [0, 0, 0, 0] @ replicate 4 0))"
         and pre = "replicate 35 0" and a = 0 and b = 0 and c = 0 and d = 0
         and post = "replicate 4 0" and L = example_layout and H = example_host and w = 0]
    timestamp_wire_or_now
      [where P = "parseBMP example_layout
                    (stream (replicate 35 0 @ [0, 0, 0, 1] @ replicate 4 0))"
         and pre = "replicate 35 0" and a = 0 and b = 0 and c = 0 and d = 1
         and post = "replicate 4 0" and L = example_layout and H = example_host and w = 1]
  by (simp add: parseBMP_def stream_def example_host_def)

subsection \<open>Running the header parsers on concrete messages\<close>

lemma handleMessage_v3:
  assumes "pending (sock P) = 3 # rest"
  shows "handleMessage L H P =
           (case parseBMPv3 L H (P\<lparr>sock := (sock P)\<lparr>pending := rest\<rparr>\<rparr>) of
              (Inl e, P1) \<Rightarrow> (Inl e, P1)
            | (Inr u, P1) \<Rightarrow> (Inr (bmp_type P1), P1))"
  unfolding handleMessage_def recv_byte [OF assms] Let_def by simp

lemma parseBMPv3_with_peer:
  assumes "pending (sock P) = t # la # lb # lc # ld # rest"
    and "t = TYPE_ROUTE_MON \<or> t = TYPE_STATS_REPORT \<or> t = TYPE_PEER_UP \<or> t = TYPE_PEER_DOWN"
  shows "parseBMPv3 L H P =
           (Inr (), parsePeerHdr L H
                      (P\<lparr>sock := (sock P)\<lparr>pending := rest\<rparr>, bmp_type := t,
                         bmp_len := be_val [la, lb, lc, ld] - 6\<rparr>))"
proof -
  have r: "recv (sock P) 5 = (5, [t, la, lb, lc, ld], (sock P)\<lparr>pending := rest\<rparr>)"
    using assms(1) by (simp add: recv_def)
  show ?thesis
    using assms(2)
    by (simp add: parseBMPv3_def BMP_HDRv3_LEN_def r Let_def field_def host_val_reverseBytes)
qed

lemma handleMessage_v3_with_peer:
  assumes "pending (sock P) = 3 # t # la # lb # lc # ld # rest"
    and "t = TYPE_ROUTE_MON \<or> t = TYPE_STATS_REPORT \<or> t = TYPE_PEER_UP \<or> t = TYPE_PEER_DOWN"
  shows "handleMessage L H P =
           (Inr t, parsePeerHdr L H
                     (P\<lparr>sock := (sock P)\<lparr>pending := rest\<rparr>, bmp_type := t,
                        bmp_len := be_val [la, lb, lc, ld] - 6\<rparr>))"
proof -
  let ?P0 = "P\<lparr>sock := (sock P)\<lparr>pending := t # la # lb # lc # ld # rest\<rparr>\<rparr>"
  have "pending (sock ?P0) = t # la # lb # lc # ld # rest"
    by simp
  from parseBMPv3_with_peer [OF this assms(2), of L H]
  show ?thesis
    by (simp add: handleMessage_v3 [OF assms(1)] parsePeerHdr_bmp_type)
qed

lemmas printf_eval =
  dec_digit dec_more hex_digit hex_more digit_char_def fmt_d_def fmt_lu_def fmt_04x_def
  promote_def dotted_quad_def snprintf_def

lemma peer_rd_text_example: "peer_rd_text [0, 0, 0, 1, 0, 0, 0, 2] = ''0:16777218''"
  by (simp add: peer_rd_text_def printf_eval)

text \<open>
  Claim C2, at an input where the code departs from it. A v3 Route-Monitoring message
  is cut off after 12 of the 42 bytes of its peer header: peer type 1, flags 0, the
  route distinguisher 0.1.10.0.0.1.0.5 and two bytes of the address. \<open>parsePeerHdr\<close>
  logs the short read and goes on: \<open>handleMessage\<close> returns message type 0 to its
  caller, and the peer record has been filled from the 12 bytes and the zeros behind
  them (L3VPN, IPv4, RD 10.0.0.1:5, address 0.0.0.0, timestamp from the clock). The
  common headers of lines 104 and 167 throw in the same situation.
\<close>

theorem parsePeerHdr_short_read_goes_on:
  "(case handleMessage example_layout example_host
           (parseBMP example_layout
              (stream [3, 0, 0, 0, 0, 0x30, 1, 0, 0, 1, 10, 0, 0, 1, 0, 5, 0, 0])) of
      (res, P') \<Rightarrow>
        res = Inr 0 \<and>
        logs P' = [(ERR, ''sock=%d: Couldn't read all bytes, read %d bytes'')] \<and>
        pending (sock P') = [] \<and>
        isL3VPN (p_entry P') \<and> isIPv4 (p_entry P') \<and>
        p_peer_rd (p_entry P') = ''10.0.0.1:5'' \<and>
        p_peer_addr (p_entry P') = ''0.0.0.0'' \<and>
        timestamp_secs (p_entry P') = time_now example_host)"
proof -
  let ?P = "parseBMP example_layout
              (stream [3, 0, 0, 0, 0, 0x30, 1, 0, 0, 1, 10, 0, 0, 1, 0, 5, 0, 0])"
  let ?P1 = "?P\<lparr>sock := (sock ?P)\<lparr>pending := [1, 0, 0, 1, 10, 0, 0, 1, 0, 5, 0, 0]\<rparr>,
                bmp_type := 0, bmp_len := be_val [0, 0, 0, 0x30] - 6\<rparr>"
  let ?hdr = "zero_filled BMP_PEER_HDR_LEN [1, 0, 0, 1, 10, 0, 0, 1, 0, 5, 0, 0]"
  have run: "handleMessage example_layout example_host ?P =
      (Inr 0, parsePeerHdr example_layout example_host ?P1)"
    by (subst handleMessage_v3_with_peer
          [where t = 0 and la = 0 and lb = 0 and lc = 0 and ld = "0x30"
             and rest = "[1, 0, 0, 1, 10, 0, 0, 1, 0, 5, 0, 0]"])
      (simp_all add: parseBMP_def stream_def TYPE_ROUTE_MON_def)
  have r: "recv (sock ?P1) BMP_PEER_HDR_LEN =
      (12, [1, 0, 0, 1, 10, 0, 0, 1, 0, 5, 0, 0], (sock ?P)\<lparr>pending := []\<rparr>)"
    by (simp add: recv_def BMP_PEER_HDR_LEN_def parseBMP_def stream_def)
  note f = parsePeerHdr_fields [OF r refl, of example_layout example_host]
  have hdr: "?hdr = [1, 0, 0, 1, 10, 0, 0, 1, 0, 5, 0, 0] @ replicate 30 0"
    by (simp add: zero_filled_def BMP_PEER_HDR_LEN_def)
  have rd: "field 2 8 ?hdr = [0, 1, 10, 0, 0, 1, 0, 5]"
    by (simp add: hdr field_def)
  have addr: "field 10 16 ?hdr = [0, 0] @ replicate 14 0"
    by (simp add: hdr field_def)
  have "replicate 4 (0 :: u8) = [0, 0, 0, 0]"
    by (simp add: numeral_eq_Suc)
  then have ts: "field 34 4 ?hdr = [0, 0, 0, 0]"
    by (simp add: hdr field_def)
  have "p_peer_rd (p_entry (parsePeerHdr example_layout example_host ?P1)) = ''10.0.0.1:5''"
    by (simp only: f(2) rd) (simp add: peer_rd_text_def printf_eval example_layout_def)
  moreover have "?hdr ! 1 AND 0x80 = 0"
    by (simp add: hdr)
  then have "p_peer_addr (p_entry (parsePeerHdr example_layout example_host ?P1)) = ''0.0.0.0''"
    by (simp only: f(6) addr) (simp add: printf_eval example_layout_def)
  moreover have "timestamp_secs (p_entry (parsePeerHdr example_layout example_host ?P1)) =
      time_now example_host"
    by (simp only: f(3) ts) (simp add: advertised_timestamp_def host_val_reverseBytes be_val_def)
  moreover have "isL3VPN (p_entry (parsePeerHdr example_layout example_host ?P1))"
    by (simp only: f(4) hdr) simp
  moreover have "isIPv4 (p_entry (parsePeerHdr example_layout example_host ?P1))"
    by (simp only: f(5) hdr) simp
  moreover have "logs (parsePeerHdr example_layout example_host ?P1) =
      [(ERR, ''sock=%d: Couldn't read all bytes, read %d bytes'')]"
    by (simp only: f(8)) (simp add: BMP_PEER_HDR_LEN_def parseBMP_def)
  moreover have "pending (sock (parsePeerHdr example_layout example_host ?P1)) = []"
    by (simp only: f(7)) simp
  ultimately show ?thesis
    by (simp add: run)
qed

text \<open>
  Claim C3, at an input where the code departs from it. The route distinguisher
  00 00 | 00 01 | 00 00 00 02 has type 0, administrator 1 (offsets 2 to 3) and
  sub-field 2 (offsets 4 to 7), so the claim asks for \<open>1:2\<close>. The default branch
  of both parsers takes the administrator from offsets 1 to 2 and builds the sub-field
  from offsets 3 to 7 (the last two bytes are or-ed together unshifted): what is
  stored is \<open>0:16777218\<close>.
\<close>

theorem peer_rd_default_slicing:
  "p_peer_rd (p_entry (parsePeerHdr example_layout example_host
       (parseBMP example_layout
          (stream ([0, 0] @ [0, 0, 0, 1, 0, 0, 0, 2] @ replicate 32 0))))) = ''0:16777218'' \<and>
   p_peer_rd (p_entry (snd (parseBMPv2 example_layout example_host
       (parseBMP example_layout
          (stream ([0, 0, 0] @ [0, 0, 0, 1, 0, 0, 0, 2] @ replicate 32 0)))))) =
     ''0:16777218''"
proof -
  let ?P3 = "parseBMP example_layout
               (stream ([0, 0] @ [0, 0, 0, 1, 0, 0, 0, 2] @ replicate 32 0))"
  let ?P2 = "parseBMP example_layout
               (stream ([0, 0, 0] @ [0, 0, 0, 1, 0, 0, 0, 2] @ replicate 32 0))"
  have "BMP_PEER_HDR_LEN \<le> length (pending (sock ?P3))"
    by (simp add: BMP_PEER_HDR_LEN_def parseBMP_def stream_def)
  moreover have "field 2 8 (pending (sock ?P3)) = [0, 0, 0, 1, 0, 0, 0, 2]"
    by (simp add: field_def parseBMP_def stream_def)
  ultimately have v3: "p_peer_rd (p_entry (parsePeerHdr example_layout example_host ?P3)) =
      ''0:16777218''"
    by (simp add: parsePeerHdr_complete(2) peer_rd_text_example snprintf_def example_layout_def)
  have "BMP_HDRv1v2_LEN \<le> length (pending (sock ?P2))"
    by (simp add: BMP_HDRv1v2_LEN_def parseBMP_def stream_def)
  moreover have "field 3 8 (pending (sock ?P2)) = [0, 0, 0, 1, 0, 0, 0, 2]"
    by (simp add: field_def parseBMP_def stream_def)
  ultimately have "p_peer_rd (p_entry (snd (parseBMPv2 example_layout example_host ?P2))) =
      ''0:16777218''"
    by (simp add: parseBMPv2_complete(3) peer_rd_text_example snprintf_def example_layout_def)
  with v3 show ?thesis
    by simp
qed

subsection \<open>The bound on Initiation and Termination messages\<close>



















end
